theory Spec2Isabelle
  imports Main "HOL-Library.Word"
begin

section \<open>Reflection data: kinds, types, struct fields\<close>

text \<open>
  The loader of \<^verbatim>\<open>aconfig.go\<close> works on a destination record through Go's
  \<^verbatim>\<open>reflect\<close> package. The embedding keeps the data the code reads from it:
  the kind enumeration \<^verbatim>\<open>reflect.Kind\<close>, a type with its identity (qualified name),
  its kind and, for a struct, its fields; and \<^verbatim>\<open>reflect.StructField\<close> with the
  members the code uses (\<^verbatim>\<open>Name\<close>, \<^verbatim>\<open>PkgPath\<close>, \<^verbatim>\<open>Type\<close>, \<^verbatim>\<open>Tag\<close>,
  \<^verbatim>\<open>Anonymous\<close>). Strings are byte strings.
\<close>

datatype kind =
    Invalid | Bool | IntK | Int8 | Int16 | Int32 | Int64
  | Uint | Uint8 | Uint16 | Uint32 | Uint64 | Uintptr
  | Float32 | Float64 | Complex64 | Complex128
  | Array | Chan | Func | Interface | Map | Pointer | Slice | String | Struct
  | UnsafePointer

text \<open>
  \<open>IntK\<close> is \<^verbatim>\<open>reflect.Int\<close> (\<open>Int\<close> is HOL's intersection).

  Two \<^verbatim>\<open>reflect.Type\<close> values are equal in Go when they denote the same type; a
  defined type is identified by its qualified name (\<open>TypeName\<close>), so equality of the
  datatype below is that identity. \<open>Fields\<close> is read for struct kinds only. A struct tag
  is kept in parsed form, as the list of its \<^verbatim>\<open>key:"value"\<close> pairs.
\<close>

datatype rtype = Type (TypeName: string) (Kind: kind) (Fields: "structField list")
and structField =
  StructField (FieldName: string) (PkgPath: string) (FieldType: rtype)
    (Tag: "(string \<times> string) list") (Anonymous: bool)

text \<open>\<^verbatim>\<open>reflect.TypeOf(time.Second)\<close>: the type \<^verbatim>\<open>time.Duration\<close>, an \<^verbatim>\<open>int64\<close>.\<close>

definition Duration :: rtype where
  "Duration = Type ''time.Duration'' Int64 []"

text \<open>\<^verbatim>\<open>StructTag.Get\<close>: the value of the key, the empty string when there is none.\<close>

fun TagGet :: "(string \<times> string) list \<Rightarrow> string \<Rightarrow> string" where
  "TagGet [] key = []"
| "TagGet ((k, v) # rest) key = (if k = key then v else TagGet rest key)"

definition defaultValueTag :: string where
  "defaultValueTag = ''default''"

section \<open>Errors and outcomes\<close>

datatype numErr = ErrSyntax | ErrRange

text \<open>\<^verbatim>\<open>strconv.NumError{Func, Num, Err}\<close>, the error of the \<^verbatim>\<open>strconv\<close> parsers.\<close>

datatype numError = NumError string string numErr

text \<open>
  The error values the code returns: a \<^verbatim>\<open>*strconv.NumError\<close>, the three errors of
  \<^verbatim>\<open>time.ParseDuration\<close>, the error of \<^verbatim>\<open>os.Open\<close> (path and reason), and
  the two errors \<^verbatim>\<open>loadFromFile\<close> builds with \<^verbatim>\<open>fmt.Errorf\<close> (from the
  extension, from the decoder's message).
\<close>

datatype error =
    Strconv numError
  | InvalidDuration string
  | MissingUnit string
  | UnknownUnit string string
  | PathError string string
  | FileFormatNotSupported string
  | FileParsingError string

text \<open>
  The values the code panics with: \<^verbatim>\<open>*reflect.ValueError{Method, Kind}\<close> (a method
  of \<^verbatim>\<open>reflect.Value\<close> called on a value of the wrong kind; the kind is \<open>Invalid\<close>
  for the zero \<^verbatim>\<open>Value\<close>), the "unknown kind" panic of \<^verbatim>\<open>setFieldData\<close>, and the
  panic of \<^verbatim>\<open>Value.Set\<close> on a value that is not assignable (the two type names).
\<close>

datatype panic = ValueError string kind | UnknownKind kind | NotAssignable string string

text \<open>
  A call returns an error value (\<open>None\<close> is Go's \<^verbatim>\<open>nil\<close>), panics, or ends the
  process (\<^verbatim>\<open>flag.Parse\<close> on the default flag set exits on a bad command line).
\<close>

datatype outcome = Returned "error option" | Panicked panic | Exited nat

section \<open>Strings: the functions of \<^verbatim>\<open>strings\<close> and \<^verbatim>\<open>path/filepath\<close> the code calls\<close>

definition isDigit :: "char \<Rightarrow> bool" where
  "isDigit c = (48 \<le> (of_char c :: nat) \<and> (of_char c :: nat) \<le> 57)"

definition digitVal :: "char \<Rightarrow> nat" where
  "digitVal c = of_char c - 48"

text \<open>
  \<^verbatim>\<open>strings.ToUpper\<close> and \<^verbatim>\<open>strings.ToLower\<close>, as the library has them: a
  string of ASCII bytes only is mapped byte by byte (\<open>a..z\<close> to \<open>A..Z\<close>, or back); a
  string with a byte of \<open>0x80\<close> or more is mapped rune by rune by
  \<^verbatim>\<open>unicode.ToUpper\<close> (\<^verbatim>\<open>unicode.ToLower\<close>). The Unicode tables are not part of
  the model: that second mapping is the parameter \<open>u\<close>.
\<close>

definition isASCII :: "string \<Rightarrow> bool" where
  "isASCII s = list_all (\<lambda>c. (of_char c :: nat) < 128) s"

definition upperChar :: "char \<Rightarrow> char" where
  "upperChar c = (if 97 \<le> (of_char c :: nat) \<and> (of_char c :: nat) \<le> 122
                  then char_of ((of_char c :: nat) - 32) else c)"

definition lowerChar :: "char \<Rightarrow> char" where
  "lowerChar c = (if 65 \<le> (of_char c :: nat) \<and> (of_char c :: nat) \<le> 90
                  then char_of ((of_char c :: nat) + 32) else c)"

definition ToUpper :: "(string \<Rightarrow> string) \<Rightarrow> string \<Rightarrow> string" where
  "ToUpper u s = (if isASCII s then map upperChar s else u s)"

definition ToLower :: "(string \<Rightarrow> string) \<Rightarrow> string \<Rightarrow> string" where
  "ToLower u s = (if isASCII s then map lowerChar s else u s)"

text \<open>
  \<^verbatim>\<open>strings.ReplaceAll(s, old, new)\<close> for a non-empty \<open>old\<close> (the code's only call
  has \<open>old = "."\<close>): the non-overlapping occurrences of \<open>old\<close>, from the left, are
  replaced.
\<close>

function ReplaceAll :: "string \<Rightarrow> string \<Rightarrow> string \<Rightarrow> string" where
  "ReplaceAll [] old new = []"
| "ReplaceAll (c # cs) old new =
     (if old \<noteq> [] \<and> take (length old) (c # cs) = old
      then new @ ReplaceAll (drop (length old) (c # cs)) old new
      else c # ReplaceAll cs old new)"
  by pat_completeness auto
termination
  by (relation "measure (\<lambda>(s, old, new). length s)") auto

text \<open>
  \<^verbatim>\<open>filepath.Ext\<close> (with \<open>/\<close> as the path separator): the suffix beginning at the
  final dot of the final element of the path, empty when there is no dot. The source scans
  from the last byte backwards; \<open>acc\<close> holds the bytes already passed.
\<close>

fun extLoop :: "string \<Rightarrow> string \<Rightarrow> string" where
  "extLoop [] acc = []"
| "extLoop (c # cs) acc =
     (if c = CHR ''/'' then []
      else if c = CHR ''.'' then c # acc
      else extLoop cs (c # acc))"

definition Ext :: "string \<Rightarrow> string" where
  "Ext path = extLoop (rev path) []"

section \<open>\<^verbatim>\<open>strconv\<close>: the parsers the setters call\<close>

text \<open>
  The parsers of Go's standard library, with the arguments the code passes: base 10 and
  bit size 64.
\<close>

definition maxUint64 :: nat where
  "maxUint64 = 2 ^ 64 - 1"

text \<open>
  \<^verbatim>\<open>strconv.ParseUint(s, 10, 64)\<close>. The loop stops at the first byte that is not a
  decimal digit (syntax error) or at the first overflow (range error, with the value
  \<open>maxUint64\<close>), whichever comes first. The value is returned beside the error, as in Go.
\<close>

fun parseUintLoop :: "string \<Rightarrow> nat \<Rightarrow> string \<Rightarrow> nat \<times> numError option" where
  "parseUintLoop s0 n [] = (n, None)"
| "parseUintLoop s0 n (c # cs) =
     (if \<not> isDigit c then (0, Some (NumError ''ParseUint'' s0 ErrSyntax))
      else if n \<ge> maxUint64 div 10 + 1 then (maxUint64, Some (NumError ''ParseUint'' s0 ErrRange))
      else if n * 10 + digitVal c > maxUint64 then (maxUint64, Some (NumError ''ParseUint'' s0 ErrRange))
      else parseUintLoop s0 (n * 10 + digitVal c) cs)"

definition ParseUint :: "string \<Rightarrow> nat \<times> numError option" where
  "ParseUint s =
     (if s = [] then (0, Some (NumError ''ParseUint'' s ErrSyntax)) else parseUintLoop s 0 s)"

text \<open>
  \<^verbatim>\<open>strconv.ParseInt(s, 10, 64)\<close>: an optional sign, then \<^verbatim>\<open>ParseUint\<close>. An error
  other than a range error is returned under the name \<^verbatim>\<open>ParseInt\<close>; a range error
  falls through to the cutoff test (\<open>parseIntCutoff\<close>) with the value \<open>maxUint64\<close>.
\<close>

definition parseIntCutoff :: "string \<Rightarrow> bool \<Rightarrow> nat \<Rightarrow> int \<times> numError option" where
  "parseIntCutoff s0 neg un =
     (if \<not> neg \<and> un \<ge> 2 ^ 63 then (2 ^ 63 - 1, Some (NumError ''ParseInt'' s0 ErrRange))
      else if neg \<and> un > 2 ^ 63 then (- (2 ^ 63), Some (NumError ''ParseInt'' s0 ErrRange))
      else (if neg then - int un else int un, None))"

definition ParseInt :: "string \<Rightarrow> int \<times> numError option" where
  "ParseInt s0 =
     (if s0 = [] then (0, Some (NumError ''ParseInt'' s0 ErrSyntax))
      else
        let neg = (hd s0 = CHR ''-'');
            s = (if hd s0 = CHR ''+'' \<or> hd s0 = CHR ''-'' then tl s0 else s0)
        in case ParseUint s of
             (un, None) \<Rightarrow> parseIntCutoff s0 neg un
           | (un, Some (NumError f n e)) \<Rightarrow>
               if e \<noteq> ErrRange then (0, Some (NumError ''ParseInt'' s0 e))
               else parseIntCutoff s0 neg un)"

text \<open>\<^verbatim>\<open>strconv.ParseBool\<close>: the twelve accepted tokens.\<close>

definition ParseBool :: "string \<Rightarrow> bool \<times> numError option" where
  "ParseBool str =
     (if str \<in> set [''1'', ''t'', ''T'', ''true'', ''TRUE'', ''True''] then (True, None)
      else if str \<in> set [''0'', ''f'', ''F'', ''false'', ''FALSE'', ''False''] then (False, None)
      else (False, Some (NumError ''ParseBool'' str ErrSyntax)))"

section \<open>\<^verbatim>\<open>time.ParseDuration\<close>\<close>

text \<open>
  The parser of Go's standard library (package \<^verbatim>\<open>time\<close>), in the form it has in
  recent releases. The duration syntax is \<^verbatim>\<open>[-+]?([0-9]*(\.[0-9]*)?[a-z]+)+\<close>. The
  parser works on unsigned 64-bit values, modelled as \<open>nat\<close> with its overflow tests.
  \<open>unitMap\<close> gives the nanoseconds of a unit (the two spellings of the micro sign are
  their UTF-8 bytes).
\<close>

definition unitMap :: "string \<Rightarrow> nat option" where
  "unitMap = map_of
     [(''ns'', 1),
      (''us'', 1000),
      ([CHR 0xC2, CHR 0xB5, CHR ''s''], 1000),
      ([CHR 0xCE, CHR 0xBC, CHR ''s''], 1000),
      (''ms'', 1000000),
      (''s'', 1000000000),
      (''m'', 60000000000),
      (''h'', 3600000000000)]"

text \<open>\<^verbatim>\<open>leadingInt\<close>: the leading digits of \<open>s\<close> as a number; \<open>None\<close> on overflow.\<close>

fun leadingInt :: "nat \<Rightarrow> string \<Rightarrow> (nat \<times> string) option" where
  "leadingInt x [] = Some (x, [])"
| "leadingInt x (c # cs) =
     (if \<not> isDigit c then Some (x, c # cs)
      else if x > 2 ^ 63 div 10 then None
      else if x * 10 + digitVal c > 2 ^ 63 then None
      else leadingInt (x * 10 + digitVal c) cs)"

text \<open>
  \<^verbatim>\<open>leadingFraction\<close>: the leading digits as a number and its scale (a power of ten);
  digits past an overflow are consumed and ignored.
\<close>

fun leadingFraction :: "nat \<Rightarrow> nat \<Rightarrow> bool \<Rightarrow> string \<Rightarrow> nat \<times> nat \<times> string" where
  "leadingFraction x scale overflow [] = (x, scale, [])"
| "leadingFraction x scale overflow (c # cs) =
     (if \<not> isDigit c then (x, scale, c # cs)
      else if overflow then leadingFraction x scale overflow cs
      else if x > (2 ^ 63 - 1) div 10 then leadingFraction x scale True cs
      else if x * 10 + digitVal c > 2 ^ 63 then leadingFraction x scale True cs
      else leadingFraction (x * 10 + digitVal c) (scale * 10) overflow cs)"

definition unitChar :: "char \<Rightarrow> bool" where
  "unitChar c = (\<not> (c = CHR ''.'' \<or> isDigit c))"

text \<open>
  One term of a duration, \<^verbatim>\<open>[0-9]*(\.[0-9]*)?[a-z]+\<close> (the body of the source's loop):
  its nanoseconds and the rest of the string. The nanoseconds of the fraction are computed
  by the source in floating point, \<^verbatim>\<open>uint64(float64(f) * (float64(unit) / scale))\<close>;
  that computation is the parameter \<open>frac\<close> (called as \<open>frac f unit scale\<close>).
\<close>

definition durationTerm ::
  "(nat \<Rightarrow> nat \<Rightarrow> nat \<Rightarrow> nat) \<Rightarrow> string \<Rightarrow> string \<Rightarrow> error + (nat \<times> string)" where
  "durationTerm frac orig s =
     (if \<not> (hd s = CHR ''.'' \<or> isDigit (hd s)) then Inl (InvalidDuration orig)
      else case leadingInt 0 s of
        None \<Rightarrow> Inl (InvalidDuration orig)
      | Some (v, s1) \<Rightarrow>
          let pre = (length s \<noteq> length s1);
              fr = (if s1 \<noteq> [] \<and> hd s1 = CHR ''.''
                    then leadingFraction 0 1 False (tl s1) else (0, 1, s1));
              f = fst fr; scale = fst (snd fr); s2 = snd (snd fr);
              post = (s1 \<noteq> [] \<and> hd s1 = CHR ''.'' \<and> length (tl s1) \<noteq> length s2)
          in if \<not> pre \<and> \<not> post then Inl (InvalidDuration orig)
             else
               let u = takeWhile unitChar s2; s3 = dropWhile unitChar s2
               in if u = [] then Inl (MissingUnit orig)
                  else case unitMap u of
                    None \<Rightarrow> Inl (UnknownUnit u orig)
                  | Some unit \<Rightarrow>
                      if v > 2 ^ 63 div unit then Inl (InvalidDuration orig)
                      else if f > 0 \<and> (v * unit + frac f unit scale) mod 2 ^ 64 > 2 ^ 63
                        then Inl (InvalidDuration orig)
                      else Inr (if f > 0 then (v * unit + frac f unit scale) mod 2 ^ 64
                                else v * unit, s3))"

lemma leadingInt_length: "leadingInt x s = Some (v, r) \<Longrightarrow> length r \<le> length s"
  by (induction x s rule: leadingInt.induct) (auto split: if_splits)

lemma leadingFraction_length: "length (snd (snd (leadingFraction x sc ov s))) \<le> length s"
  by (induction x sc ov s rule: leadingFraction.induct) (auto simp: le_SucI)

lemma durationTerm_length:
  assumes "durationTerm frac orig s = Inr (v, r)" and "s \<noteq> []"
  shows "length r < length s"
proof -
  from assms(1) obtain v0 s1 where li: "leadingInt 0 s = Some (v0, s1)"
    by (auto simp: durationTerm_def split: if_splits option.splits)
  define s2 where "s2 = snd (snd (if s1 \<noteq> [] \<and> hd s1 = CHR ''.''
                    then leadingFraction 0 1 False (tl s1) else (0, 1, s1)))"
  have l1: "length s1 \<le> length s" using li by (rule leadingInt_length)
  have l2: "length s2 \<le> length s1"
    using leadingFraction_length [of 0 1 False "tl s1"] by (auto simp: s2_def)
  from assms(1) li have r: "r = dropWhile unitChar s2" and u: "takeWhile unitChar s2 \<noteq> []"
    by (auto simp: durationTerm_def Let_def s2_def split: if_splits option.splits)
  have "length (takeWhile unitChar s2) + length (dropWhile unitChar s2) = length s2"
    by (metis length_append takeWhile_dropWhile_id)
  with u have "length r < length s2" by (cases "takeWhile unitChar s2") (auto simp: r)
  with l1 l2 show ?thesis by simp
qed

text \<open>
  The loop of \<^verbatim>\<open>ParseDuration\<close> over the terms: \<open>d\<close> is the sum so far, added in
  64 bits.
\<close>

function durationLoop ::
  "(nat \<Rightarrow> nat \<Rightarrow> nat \<Rightarrow> nat) \<Rightarrow> string \<Rightarrow> nat \<Rightarrow> string \<Rightarrow> error + nat" where
  "durationLoop frac orig d s =
     (if s = [] then Inr d
      else case durationTerm frac orig s of
        Inl e \<Rightarrow> Inl e
      | Inr (v, rest) \<Rightarrow>
          if (d + v) mod 2 ^ 64 > 2 ^ 63 then Inl (InvalidDuration orig)
          else durationLoop frac orig ((d + v) mod 2 ^ 64) rest)"
  by pat_completeness auto
termination
  by (relation "measure (\<lambda>(frac, orig, d, s). length s)") (auto dest: durationTerm_length)

declare durationLoop.simps [simp del]

definition ParseDuration :: "(nat \<Rightarrow> nat \<Rightarrow> nat \<Rightarrow> nat) \<Rightarrow> string \<Rightarrow> int \<times> error option" where
  "ParseDuration frac orig =
     (let neg = (orig \<noteq> [] \<and> hd orig = CHR ''-'');
          s = (if orig \<noteq> [] \<and> (hd orig = CHR ''-'' \<or> hd orig = CHR ''+'') then tl orig else orig)
      in if s = ''0'' then (0, None)
         else if s = [] then (0, Some (InvalidDuration orig))
         else case durationLoop frac orig 0 s of
           Inl e \<Rightarrow> (0, Some e)
         | Inr d \<Rightarrow>
             if neg then (- int d, None)
             else if d > 2 ^ 63 - 1 then (0, Some (InvalidDuration orig))
             else (int d, None))"

section \<open>The destination record and the collaborators\<close>

text \<open>
  A \<^verbatim>\<open>reflect.Value\<close> of a field is a settable handle to a slot of the destination
  record: the path of field indexes from the root. The destination record is the store
  of its slots. A slot holds a boolean, a signed or unsigned integer (already converted
  to the slot's width), a float (of an abstract type \<open>'f\<close>: floating point is outside the
  model) or a string.
\<close>

datatype 'f gval = BoolV bool | IntV int | UintV nat | FloatV 'f | StringV string

type_synonym 'f store = "nat list \<Rightarrow> 'f gval"

type_synonym 'f effect = "'f store \<Rightarrow> outcome \<times> 'f store"

text \<open>
  What the code takes from outside the repository and the model does not compute:
  \<^item> \<open>ParseFloat\<close>: \<^verbatim>\<open>strconv.ParseFloat(s, 64)\<close>; \<open>ToFloat32\<close>: the conversion
    \<^verbatim>\<open>float32(x)\<close> done by \<^verbatim>\<open>SetFloat\<close> on a 32-bit field; \<open>FracNanos\<close>: the
    floating-point expression of \<^verbatim>\<open>time.ParseDuration\<close>;
  \<^item> \<open>UnicodeUpper\<close>, \<open>UnicodeLower\<close>: \<^verbatim>\<open>strings.ToUpper\<close> and
    \<^verbatim>\<open>strings.ToLower\<close> on a string that is not ASCII only;
  \<^item> \<open>Open\<close>: \<^verbatim>\<open>os.Open\<close>, the file's bytes or an error;
  \<^item> \<open>DecodeYAML\<close>, \<open>DecodeJSON\<close>, \<open>DecodeTOML\<close>: the decoders, from the bytes and the
    destination record to an error message (or none) and the record as they leave it;
  \<^item> \<open>LookupEnv\<close>: \<^verbatim>\<open>os.LookupEnv\<close>;
  \<^item> \<open>FlagParsed\<close>: \<^verbatim>\<open>flag.Parsed()\<close>; \<open>FlagLookup\<close>: the registered flags with
    their values as strings (\<^verbatim>\<open>flag.Lookup(name).Value.String()\<close>), as they are now;
    \<open>FlagParse\<close>: the same after \<^verbatim>\<open>flag.Parse()\<close>, or the exit status when it ends the
    process.
\<close>

record 'f world =
  ParseFloat :: "string \<Rightarrow> 'f \<times> numError option"
  ToFloat32 :: "'f \<Rightarrow> 'f"
  FracNanos :: "nat \<Rightarrow> nat \<Rightarrow> nat \<Rightarrow> nat"
  UnicodeUpper :: "string \<Rightarrow> string"
  UnicodeLower :: "string \<Rightarrow> string"
  Open :: "string \<Rightarrow> error + string"
  DecodeYAML :: "string \<Rightarrow> 'f store \<Rightarrow> string option \<times> 'f store"
  DecodeJSON :: "string \<Rightarrow> 'f store \<Rightarrow> string option \<times> 'f store"
  DecodeTOML :: "string \<Rightarrow> 'f store \<Rightarrow> string option \<times> 'f store"
  LookupEnv :: "string \<Rightarrow> string option"
  FlagParsed :: bool
  FlagLookup :: "string \<Rightarrow> string option"
  FlagParse :: "nat + (string \<Rightarrow> string option)"

section \<open>The field catalog\<close>

datatype fieldData =
  FieldData (Parent: "fieldData option") (Name: string) (Field: structField)
    (Value: "nat list") (DefaultValue: string)

text \<open>\<^verbatim>\<open>field.Value.Kind()\<close>: the kind of the field's type.\<close>

definition ValueKind :: "fieldData \<Rightarrow> kind" where
  "ValueKind fd = Kind (FieldType (Field fd))"

text \<open>
  \<^verbatim>\<open>value.CanSet()\<close> for a field of an addressable struct reached through exported
  fields only: the field is exported, that is, its \<^verbatim>\<open>PkgPath\<close> is empty.
\<close>

definition CanSet :: "structField \<Rightarrow> bool" where
  "CanSet field = (PkgPath field = [])"

text \<open>
  \<^verbatim>\<open>getFieldsHelper\<close>: \<open>v\<close> is the path of \<open>valueObject\<close>, the type is its type, and
  \<open>getFieldsLoop\<close> is the \<^verbatim>\<open>for\<close> loop from index \<open>i\<close> over the fields that remain.
  The source calls the helper on struct values only (\<^verbatim>\<open>NumField\<close> panics on any
  other kind); the check is in \<open>getFields\<close> below.
\<close>

lemma size_FieldType: "size (FieldType field) < size field"
  by (cases field) simp

function getFieldsHelper :: "nat list \<Rightarrow> rtype \<Rightarrow> fieldData option \<Rightarrow> fieldData list"
and getFieldsLoop :: "nat list \<Rightarrow> nat \<Rightarrow> structField list \<Rightarrow> fieldData option \<Rightarrow> fieldData list"
where
  "getFieldsHelper v (Type n k fs) parent = getFieldsLoop v 0 fs parent"
| "getFieldsLoop v i [] parent = []"
| "getFieldsLoop v i (field # rest) parent =
     (if \<not> CanSet field then getFieldsLoop v (i + 1) rest parent
      else
        let fd = FieldData parent (FieldName field) field (v @ [i])
                   (TagGet (Tag field) defaultValueTag)
        in if Kind (FieldType field) \<noteq> Struct then fd # getFieldsLoop v (i + 1) rest parent
           else getFieldsHelper (v @ [i]) (FieldType field)
                  (if Anonymous field then Parent fd else Some fd)
                @ getFieldsLoop v (i + 1) rest parent)"
  by pat_completeness auto

termination
proof (relation "measure (\<lambda>x. case x of Inl (v, t, p) \<Rightarrow> size t
                                      | Inr (v, i, fs, p) \<Rightarrow> size_list size fs)")
  fix v :: "nat list" and i :: nat and field rest and parent :: "fieldData option" and x
  assume "\<not> \<not> CanSet field" "\<not> Kind (FieldType field) \<noteq> Struct"
  have "size (FieldType field) < size field" by (rule size_FieldType)
  then show "(Inl (v @ [i], FieldType field, if Anonymous field then Parent x else Some x),
              Inr (v, i, field # rest, parent))
             \<in> measure (\<lambda>x. case x of Inl (v, t, p) \<Rightarrow> size t
                                      | Inr (v, i, fs, p) \<Rightarrow> size_list size fs)"
    by simp
qed simp_all

text \<open>
  The argument of \<^verbatim>\<open>Load\<close>, an \<^verbatim>\<open>interface{}\<close>: nil; a value of a type \<open>t\<close>
  that is not a pointer type (\<open>NonPointer t\<close>); a nil pointer to a \<open>t\<close>; or a pointer
  to the destination record, of type \<open>t\<close>.
\<close>

datatype target = NilInterface | NonPointer rtype | NilPointer rtype | PointerTo rtype

text \<open>
  \<^verbatim>\<open>getFields\<close>. \<^verbatim>\<open>reflect.ValueOf(x).Elem()\<close> panics unless \<open>x\<close> holds a
  pointer (\<^verbatim>\<open>ValueOf(nil)\<close> is the zero \<^verbatim>\<open>Value\<close>); the \<^verbatim>\<open>Elem()\<close> of a nil
  pointer is the zero \<^verbatim>\<open>Value\<close>, on which \<^verbatim>\<open>Type()\<close> panics; and
  \<^verbatim>\<open>NumField()\<close> panics on a value that is not a struct. \<open>Inl\<close> is the panic.
\<close>

definition getFields :: "target \<Rightarrow> panic + fieldData list" where
  "getFields x =
     (case x of
        NilInterface \<Rightarrow> Inl (ValueError ''reflect.Value.Elem'' Invalid)
      | NonPointer t \<Rightarrow> Inl (ValueError ''reflect.Value.Elem'' (Kind t))
      | NilPointer t \<Rightarrow> Inl (ValueError ''reflect.Value.Type'' Invalid)
      | PointerTo t \<Rightarrow>
          if Kind t \<noteq> Struct then Inl (ValueError ''reflect.Value.NumField'' (Kind t))
          else Inr (getFieldsHelper [] t None))"

text \<open>\<^verbatim>\<open>FullName\<close>, on a pointer that may be nil.\<close>

fun FullName :: "fieldData option \<Rightarrow> string" where
  "FullName None = []"
| "FullName (Some (FieldData None name field v dv)) = name"
| "FullName (Some (FieldData (Some p) name field v dv)) = FullName (Some p) @ ''.'' @ name"

section \<open>The setters\<close>

text \<open>
  The setters of \<^verbatim>\<open>reflect.Value\<close>. Each panics (\<open>Inl\<close>) on a value of another
  kind and otherwise stores its argument converted to the slot's type: \<^verbatim>\<open>SetInt\<close>
  stores \<^verbatim>\<open>int8(x)\<close>, \<^verbatim>\<open>int16(x)\<close>, ... of its 64-bit argument, which keeps the low
  bits; \<^verbatim>\<open>SetUint\<close> likewise. \<^verbatim>\<open>int\<close> and \<^verbatim>\<open>uint\<close> are 64 bits wide.
\<close>

definition SetBool :: "fieldData \<Rightarrow> bool \<Rightarrow> 'f store \<Rightarrow> panic + 'f store" where
  "SetBool fd x st =
     (if ValueKind fd = Bool then Inr (st(Value fd := BoolV x))
      else Inl (ValueError ''reflect.Value.SetBool'' (ValueKind fd)))"

definition SetInt :: "fieldData \<Rightarrow> int \<Rightarrow> 'f store \<Rightarrow> panic + 'f store" where
  "SetInt fd x st =
     (case ValueKind fd of
        IntK \<Rightarrow> Inr (st(Value fd := IntV (sint (word_of_int x :: 64 word))))
      | Int8 \<Rightarrow> Inr (st(Value fd := IntV (sint (word_of_int x :: 8 word))))
      | Int16 \<Rightarrow> Inr (st(Value fd := IntV (sint (word_of_int x :: 16 word))))
      | Int32 \<Rightarrow> Inr (st(Value fd := IntV (sint (word_of_int x :: 32 word))))
      | Int64 \<Rightarrow> Inr (st(Value fd := IntV (sint (word_of_int x :: 64 word))))
      | _ \<Rightarrow> Inl (ValueError ''reflect.Value.SetInt'' (ValueKind fd)))"

definition SetUint :: "fieldData \<Rightarrow> nat \<Rightarrow> 'f store \<Rightarrow> panic + 'f store" where
  "SetUint fd x st =
     (case ValueKind fd of
        Uint \<Rightarrow> Inr (st(Value fd := UintV (unat (word_of_nat x :: 64 word))))
      | Uintptr \<Rightarrow> Inr (st(Value fd := UintV (unat (word_of_nat x :: 64 word))))
      | Uint8 \<Rightarrow> Inr (st(Value fd := UintV (unat (word_of_nat x :: 8 word))))
      | Uint16 \<Rightarrow> Inr (st(Value fd := UintV (unat (word_of_nat x :: 16 word))))
      | Uint32 \<Rightarrow> Inr (st(Value fd := UintV (unat (word_of_nat x :: 32 word))))
      | Uint64 \<Rightarrow> Inr (st(Value fd := UintV (unat (word_of_nat x :: 64 word))))
      | _ \<Rightarrow> Inl (ValueError ''reflect.Value.SetUint'' (ValueKind fd)))"

definition SetFloat :: "'f world \<Rightarrow> fieldData \<Rightarrow> 'f \<Rightarrow> 'f store \<Rightarrow> panic + 'f store" where
  "SetFloat w fd x st =
     (case ValueKind fd of
        Float32 \<Rightarrow> Inr (st(Value fd := FloatV (ToFloat32 w x)))
      | Float64 \<Rightarrow> Inr (st(Value fd := FloatV x))
      | _ \<Rightarrow> Inl (ValueError ''reflect.Value.SetFloat'' (ValueKind fd)))"

definition SetString :: "fieldData \<Rightarrow> string \<Rightarrow> 'f store \<Rightarrow> panic + 'f store" where
  "SetString fd x st =
     (if ValueKind fd = String then Inr (st(Value fd := StringV x))
      else Inl (ValueError ''reflect.Value.SetString'' (ValueKind fd)))"

text \<open>
  \<^verbatim>\<open>Value.Set\<close> with a \<^verbatim>\<open>time.Duration\<close>: it panics unless the value is assignable
  to the field's type, that is, unless the field's type is \<^verbatim>\<open>time.Duration\<close>.
\<close>

definition SetDuration :: "fieldData \<Rightarrow> int \<Rightarrow> 'f store \<Rightarrow> panic + 'f store" where
  "SetDuration fd x st =
     (if FieldType (Field fd) = Duration then Inr (st(Value fd := IntV x))
      else Inl (NotAssignable ''time.Duration'' (TypeName (FieldType (Field fd)))))"

text \<open>A call of a \<^verbatim>\<open>reflect\<close> setter followed by \<^verbatim>\<open>return nil\<close>.\<close>

definition thenReturnNil :: "panic + 'f store \<Rightarrow> 'f store \<Rightarrow> outcome \<times> 'f store" where
  "thenReturnNil r st = (case r of Inl p \<Rightarrow> (Panicked p, st) | Inr st' \<Rightarrow> (Returned None, st'))"

definition setBool :: "fieldData \<Rightarrow> string \<Rightarrow> 'f effect" where
  "setBool field value st =
     (case ParseBool value of
        (val, Some err) \<Rightarrow> (Returned (Some (Strconv err)), st)
      | (val, None) \<Rightarrow> thenReturnNil (SetBool field val st) st)"

definition setInt :: "fieldData \<Rightarrow> string \<Rightarrow> 'f effect" where
  "setInt field value st =
     (case ParseInt value of
        (val, Some err) \<Rightarrow> (Returned (Some (Strconv err)), st)
      | (val, None) \<Rightarrow> thenReturnNil (SetInt field val st) st)"

definition setInt64 :: "'f world \<Rightarrow> fieldData \<Rightarrow> string \<Rightarrow> 'f effect" where
  "setInt64 w field value st =
     (if FieldType (Field field) = Duration then
        (case ParseDuration (FracNanos w) value of
           (val, Some err) \<Rightarrow> (Returned (Some err), st)
         | (val, None) \<Rightarrow> thenReturnNil (SetDuration field val st) st)
      else setInt field value st)"

definition setUint :: "fieldData \<Rightarrow> string \<Rightarrow> 'f effect" where
  "setUint field value st =
     (case ParseUint value of
        (val, Some err) \<Rightarrow> (Returned (Some (Strconv err)), st)
      | (val, None) \<Rightarrow> thenReturnNil (SetUint field val st) st)"

definition setFloat :: "'f world \<Rightarrow> fieldData \<Rightarrow> string \<Rightarrow> 'f effect" where
  "setFloat w field value st =
     (case ParseFloat w value of
        (val, Some err) \<Rightarrow> (Returned (Some (Strconv err)), st)
      | (val, None) \<Rightarrow> thenReturnNil (SetFloat w field val st) st)"

definition setString :: "fieldData \<Rightarrow> string \<Rightarrow> 'f effect" where
  "setString field value st = thenReturnNil (SetString field value st) st"

text \<open>The map \<^verbatim>\<open>settersByKind\<close>; \<open>None\<close> for a kind that is not a key.\<close>

fun settersByKind :: "'f world \<Rightarrow> kind \<Rightarrow> (fieldData \<Rightarrow> string \<Rightarrow> 'f effect) option" where
  "settersByKind w Bool = Some setBool"
| "settersByKind w String = Some setString"
| "settersByKind w IntK = Some setInt"
| "settersByKind w Int8 = Some setInt"
| "settersByKind w Int16 = Some setInt"
| "settersByKind w Int32 = Some setInt"
| "settersByKind w Int64 = Some (setInt64 w)"
| "settersByKind w Uint = Some setUint"
| "settersByKind w Uint8 = Some setUint"
| "settersByKind w Uint16 = Some setUint"
| "settersByKind w Uint32 = Some setUint"
| "settersByKind w Uint64 = Some setUint"
| "settersByKind w Float32 = Some (setFloat w)"
| "settersByKind w Float64 = Some (setFloat w)"
| "settersByKind w _ = None"

definition setFieldData :: "'f world \<Rightarrow> fieldData \<Rightarrow> string \<Rightarrow> 'f effect" where
  "setFieldData w field value st =
     (case settersByKind w (ValueKind field) of
        Some setter \<Rightarrow> setter field value st
      | None \<Rightarrow> (Panicked (UnknownKind (ValueKind field)), st))"

section \<open>The loader\<close>

record LoaderConfig =
  UseDefaults :: bool
  UseFile :: bool
  UseEnv :: bool
  UseFlag :: bool
  EnvPrefix :: string
  FlagPrefix :: string
  Files :: "string list"

datatype Loader = Loader (config: LoaderConfig) (fields: "fieldData list")

definition DefaultConfig :: LoaderConfig where
  "DefaultConfig =
     \<lparr>UseDefaults = True, UseFile = True, UseEnv = True, UseFlag = True,
      EnvPrefix = [], FlagPrefix = [], Files = []\<rparr>"

definition NewLoader :: "LoaderConfig \<Rightarrow> Loader" where
  "NewLoader cfg =
     (let cfg1 = (if EnvPrefix cfg \<noteq> [] then cfg\<lparr>EnvPrefix := EnvPrefix cfg @ ''_''\<rparr> else cfg);
          cfg2 = (if FlagPrefix cfg1 \<noteq> [] then cfg1\<lparr>FlagPrefix := FlagPrefix cfg1 @ ''.''\<rparr> else cfg1)
      in Loader cfg2 [])"

definition getEnvName :: "'f world \<Rightarrow> Loader \<Rightarrow> string \<Rightarrow> string" where
  "getEnvName w l name =
     ToUpper (UnicodeUpper w) (EnvPrefix (config l) @ ReplaceAll name ''.'' ''_'')"

definition getFlagName :: "'f world \<Rightarrow> Loader \<Rightarrow> string \<Rightarrow> string" where
  "getFlagName w l name = ToLower (UnicodeLower w) (FlagPrefix (config l) @ name)"

text \<open>\<^verbatim>\<open>loadDefaults\<close>: the loop over \<^verbatim>\<open>l.fields\<close>, left at the first error.\<close>

fun loadDefaultsLoop :: "'f world \<Rightarrow> fieldData list \<Rightarrow> 'f effect" where
  "loadDefaultsLoop w [] st = (Returned None, st)"
| "loadDefaultsLoop w (fd # rest) st =
     (let r = setFieldData w fd (DefaultValue fd) st
      in if fst r \<noteq> Returned None then r else loadDefaultsLoop w rest (snd r))"

definition loadDefaults :: "'f world \<Rightarrow> Loader \<Rightarrow> 'f effect" where
  "loadDefaults w l st = loadDefaultsLoop w (fields l) st"

text \<open>
  \<^verbatim>\<open>loadFromFile\<close>. The body of the loop over \<^verbatim>\<open>l.config.Files\<close> ends in
  \<^verbatim>\<open>return\<close> or in \<^verbatim>\<open>break\<close> on each of its paths, so the files after the first
  (\<open>rest\<close>) are not reached. \<open>decoded\<close> is the test of the decoder's error after the
  \<^verbatim>\<open>switch\<close>, then the \<^verbatim>\<open>break\<close> and \<^verbatim>\<open>return nil\<close>.
\<close>

definition decoded :: "string option \<times> 'f store \<Rightarrow> outcome \<times> 'f store" where
  "decoded r =
     (case fst r of
        Some msg \<Rightarrow> (Returned (Some (FileParsingError msg)), snd r)
      | None \<Rightarrow> (Returned None, snd r))"

fun loadFromFileLoop :: "'f world \<Rightarrow> string list \<Rightarrow> 'f effect" where
  "loadFromFileLoop w [] st = (Returned None, st)"
| "loadFromFileLoop w (file # rest) st =
     (case Open w file of
        Inl err \<Rightarrow> (Returned (Some err), st)
      | Inr f \<Rightarrow>
          let ext = ToLower (UnicodeLower w) (Ext file)
          in if ext = ''.yaml'' \<or> ext = ''.yml'' then decoded (DecodeYAML w f st)
             else if ext = ''.json'' then decoded (DecodeJSON w f st)
             else if ext = ''.toml'' then decoded (DecodeTOML w f st)
             else (Returned (Some (FileFormatNotSupported ext)), st))"

definition loadFromFile :: "'f world \<Rightarrow> Loader \<Rightarrow> 'f effect" where
  "loadFromFile w l st = loadFromFileLoop w (Files (config l)) st"

fun loadEnvironmentLoop :: "'f world \<Rightarrow> Loader \<Rightarrow> fieldData list \<Rightarrow> 'f effect" where
  "loadEnvironmentLoop w l [] st = (Returned None, st)"
| "loadEnvironmentLoop w l (field # rest) st =
     (case LookupEnv w (getEnvName w l (FullName (Some field))) of
        None \<Rightarrow> loadEnvironmentLoop w l rest st
      | Some v \<Rightarrow>
          let r = setFieldData w field v st
          in if fst r \<noteq> Returned None then r else loadEnvironmentLoop w l rest (snd r))"

definition loadEnvironment :: "'f world \<Rightarrow> Loader \<Rightarrow> 'f effect" where
  "loadEnvironment w l st = loadEnvironmentLoop w l (fields l) st"

text \<open>
  \<^verbatim>\<open>loadFlags\<close>: \<open>flags\<close> is the flag set the loop looks names up in, the present one
  when the command line has been parsed, else the one \<^verbatim>\<open>flag.Parse()\<close> leaves.
\<close>

fun loadFlagsLoop ::
  "'f world \<Rightarrow> (string \<Rightarrow> string option) \<Rightarrow> Loader \<Rightarrow> fieldData list \<Rightarrow> 'f effect" where
  "loadFlagsLoop w flags l [] st = (Returned None, st)"
| "loadFlagsLoop w flags l (field # rest) st =
     (case flags (getFlagName w l (FullName (Some field))) of
        None \<Rightarrow> loadFlagsLoop w flags l rest st
      | Some v \<Rightarrow>
          let r = setFieldData w field v st
          in if fst r \<noteq> Returned None then r else loadFlagsLoop w flags l rest (snd r))"

definition loadFlags :: "'f world \<Rightarrow> Loader \<Rightarrow> 'f effect" where
  "loadFlags w l st =
     (if \<not> FlagParsed w then
        (case FlagParse w of
           Inl status \<Rightarrow> (Exited status, st)
         | Inr flags \<Rightarrow> loadFlagsLoop w flags l (fields l) st)
      else loadFlagsLoop w (FlagLookup w) l (fields l) st)"

text \<open>
  \<^verbatim>\<open>Load\<close>. The result is the outcome, the loader (whose \<^verbatim>\<open>fields\<close> the call
  assigns) and the destination record as the call leaves it. \<open>Inl\<close> of \<open>getFields\<close> is
  a panic, which leaves \<^verbatim>\<open>Load\<close> before the assignment.
\<close>

definition Load :: "'f world \<Rightarrow> Loader \<Rightarrow> target \<Rightarrow> 'f store \<Rightarrow> outcome \<times> Loader \<times> 'f store" where
  "Load w l0 into st0 =
     (case getFields into of
        Inl p \<Rightarrow> (Panicked p, l0, st0)
      | Inr fs \<Rightarrow>
          let l = Loader (config l0) fs;
              r1 = (if UseDefaults (config l) then loadDefaults w l st0 else (Returned None, st0))
          in if fst r1 \<noteq> Returned None then (fst r1, l, snd r1)
             else
               let r2 = (if UseFile (config l) then loadFromFile w l (snd r1)
                         else (Returned None, snd r1))
               in if fst r2 \<noteq> Returned None then (fst r2, l, snd r2)
                  else
                    let r3 = (if UseEnv (config l) then loadEnvironment w l (snd r2)
                              else (Returned None, snd r2))
                    in if fst r3 \<noteq> Returned None then (fst r3, l, snd r3)
                       else
                         let r4 = (if UseFlag (config l) then loadFlags w l (snd r3)
                                   else (Returned None, snd r3))
                         in if fst r4 \<noteq> Returned None then (fst r4, l, snd r4)
                            else (Returned None, l, snd r4))"

section \<open>The dotted names of a catalog and the stages in the specification's words\<close>

text \<open>The dotted names of the descriptors of a catalog, in catalog order.\<close>

definition fullNames :: "fieldData list \<Rightarrow> string list" where
  "fullNames fds = map (\<lambda>fd. FullName (Some fd)) fds"

text \<open>
  The specification's account of \<^verbatim>\<open>Load\<close>: the four stages in their fixed order, each
  with its switch (\<open>specStages\<close>), and a run that skips a stage that is switched off and
  stops at the first stage whose outcome is not a plain \<^verbatim>\<open>nil\<close>, with the record as
  that stage left it (\<open>specRun\<close>).
\<close>

definition specStages :: "'f world \<Rightarrow> Loader \<Rightarrow> (bool \<times> 'f effect) list" where
  "specStages w l =
     [(UseDefaults (config l), loadDefaults w l),
      (UseFile (config l), loadFromFile w l),
      (UseEnv (config l), loadEnvironment w l),
      (UseFlag (config l), loadFlags w l)]"

fun specRun :: "(bool \<times> 'f effect) list \<Rightarrow> 'f effect" where
  "specRun [] st = (Returned None, st)"
| "specRun ((enabled, stage) # rest) st =
     (if \<not> enabled then specRun rest st
      else let r = stage st in if fst r = Returned None then specRun rest (snd r) else r)"

section \<open>Example records, loaders and collaborators\<close>

text \<open>The record of the README: a port and a nested, named group with two strings.\<close>

definition MyConfig :: rtype where
  "MyConfig = Type ''main.MyConfig'' Struct
     [StructField ''Port'' [] (Type ''int'' IntK []) [(''default'', ''1111'')] False,
      StructField ''Auth'' []
        (Type [] Struct
           [StructField ''User'' [] (Type ''string'' String []) [(''default'', ''def-user'')] False,
            StructField ''Pass'' [] (Type ''string'' String []) [(''default'', ''def-pass'')] False])
        [] False]"

text \<open>Its zero value: \<open>0\<close> in the port's slot, the empty string in the others.\<close>

definition zeroMyConfig :: "unit store" where
  "zeroMyConfig = (\<lambda>p. if p = [0] then IntV 0 else StringV [])"

text \<open>A record with an embedded group \<^verbatim>\<open>Common\<close> and a named group \<^verbatim>\<open>Auth\<close>.\<close>

definition ServerConfig :: rtype where
  "ServerConfig = Type ''main.ServerConfig'' Struct
     [StructField ''Common'' []
        (Type ''main.Common'' Struct
           [StructField ''Name'' [] (Type ''string'' String []) [] False])
        [] True,
      StructField ''Auth'' []
        (Type [] Struct
           [StructField ''User'' [] (Type ''string'' String []) [] False])
        [] False]"

text \<open>A record whose only field has no \<^verbatim>\<open>default\<close> tag.\<close>

definition PortConfig :: rtype where
  "PortConfig = Type ''main.PortConfig'' Struct
     [StructField ''Port'' [] (Type ''int'' IntK []) [] False]"

definition fdPort :: fieldData where
  "fdPort = FieldData None ''Port'' (StructField ''Port'' [] (Type ''int'' IntK []) [] False) [0] []"

text \<open>A record whose second default is malformed.\<close>

definition LimitsConfig :: rtype where
  "LimitsConfig = Type ''main.LimitsConfig'' Struct
     [StructField ''Low'' [] (Type ''int'' IntK []) [(''default'', ''7'')] False,
      StructField ''High'' [] (Type ''int'' IntK []) [(''default'', ''x'')] False,
      StructField ''Step'' [] (Type ''int'' IntK []) [(''default'', ''9'')] False]"

definition fdLow :: fieldData where
  "fdLow = FieldData None ''Low''
     (StructField ''Low'' [] (Type ''int'' IntK []) [(''default'', ''7'')] False) [0] ''7''"

definition fdHigh :: fieldData where
  "fdHigh = FieldData None ''High''
     (StructField ''High'' [] (Type ''int'' IntK []) [(''default'', ''x'')] False) [1] ''x''"

definition fdStep :: fieldData where
  "fdStep = FieldData None ''Step''
     (StructField ''Step'' [] (Type ''int'' IntK []) [(''default'', ''9'')] False) [2] ''9''"

text \<open>
  Descriptors of an \<^verbatim>\<open>int8\<close> field, a \<^verbatim>\<open>uint8\<close> field, a \<^verbatim>\<open>time.Duration\<close> field
  and a field of the defined type \<^verbatim>\<open>type Millis int64\<close>.
\<close>

definition fdLevel :: fieldData where
  "fdLevel = FieldData None ''Level'' (StructField ''Level'' [] (Type ''int8'' Int8 []) [] False) [0] []"

definition fdCount :: fieldData where
  "fdCount = FieldData None ''Count'' (StructField ''Count'' [] (Type ''uint8'' Uint8 []) [] False) [1] []"

definition fdTimeout :: fieldData where
  "fdTimeout = FieldData None ''Timeout'' (StructField ''Timeout'' [] Duration [] False) [2] []"

definition fdDelay :: fieldData where
  "fdDelay = FieldData None ''Delay''
     (StructField ''Delay'' [] (Type ''main.Millis'' Int64 []) [] False) [3] []"

text \<open>Loader configurations: the defaults stage alone; the README's prefixes and one file.\<close>

definition onlyDefaults :: LoaderConfig where
  "onlyDefaults = DefaultConfig\<lparr>UseFile := False, UseEnv := False, UseFlag := False\<rparr>"

definition appConfig :: LoaderConfig where
  "appConfig = DefaultConfig\<lparr>Files := [''ok.toml''], EnvPrefix := ''APP'', FlagPrefix := ''app''\<rparr>"

text \<open>
  A process in which the file \<^verbatim>\<open>ok.toml\<close> exists and sets the port to 2222, the
  file \<^verbatim>\<open>bad.json\<close> exists and is cut short, no other file exists, the environment
  holds \<^verbatim>\<open>APP_PORT=3333\<close>, and the command line has been
  parsed and defines no flag. No example has a float field, a fractional duration or, in
  this process, a name that is not ASCII: \<open>ParseFloat\<close> rejects every string here,
  \<open>FracNanos\<close> is the exact quotient, and \<open>UnicodeUpper\<close> and \<open>UnicodeLower\<close> are
  never applied.
\<close>

definition tomlWorld :: "unit world" where
  "tomlWorld =
     \<lparr>ParseFloat = (\<lambda>s. ((), Some (NumError ''ParseFloat'' s ErrSyntax))),
      ToFloat32 = (\<lambda>x. x),
      FracNanos = (\<lambda>f unit scale. f * unit div scale),
      UnicodeUpper = (\<lambda>s. s),
      UnicodeLower = (\<lambda>s. s),
      Open = (\<lambda>p. if p = ''ok.toml'' then Inr ''Port = 2222''
                    else if p = ''bad.json'' then Inr ''{''
                    else Inl (PathError p ''no such file or directory'')),
      DecodeYAML = (\<lambda>b st. (Some ''cannot unmarshal'', st)),
      DecodeJSON = (\<lambda>b st. (Some ''unexpected EOF'', st)),
      DecodeTOML = (\<lambda>b st. if b = ''Port = 2222'' then (None, st([0] := IntV 2222))
                             else (Some ''expected key separator'', st)),
      LookupEnv = [''APP_PORT'' \<mapsto> ''3333''],
      FlagParsed = True,
      FlagLookup = Map.empty,
      FlagParse = Inr Map.empty\<rparr>"

text \<open>
  The same process with another environment: its one variable has the value 7 and the
  name made of the capital E with acute accent (bytes \<open>C3 89\<close>) and \<^verbatim>\<open>_PORT\<close>.
  \<open>UnicodeUpper\<close> is given at the one string it is applied to, the small e with acute
  accent (bytes \<open>C3 A9\<close>) followed by \<^verbatim>\<open>_Port\<close>. The loader's prefix is that
  small letter.
\<close>

definition accentWorld :: "unit world" where
  "accentWorld =
     tomlWorld
       \<lparr>UnicodeUpper :=
          (\<lambda>s. if s = [CHR 0xC3, CHR 0xA9] @ ''_Port'' then [CHR 0xC3, CHR 0x89] @ ''_PORT''
                else s),
        LookupEnv := [[CHR 0xC3, CHR 0x89] @ ''_PORT'' \<mapsto> ''7'']\<rparr>"

definition accentConfig :: LoaderConfig where
  "accentConfig = DefaultConfig\<lparr>EnvPrefix := [CHR 0xC3, CHR 0xA9]\<rparr>"

section \<open>Evaluation and auxiliary facts\<close>

lemmas catalog_eval = getFields_def CanSet_def defaultValueTag_def Let_def

lemmas setter_eval =
  setFieldData_def ValueKind_def setInt_def setUint_def setString_def setBool_def setInt64_def
  SetInt_def SetUint_def SetString_def SetBool_def SetDuration_def thenReturnNil_def

lemmas strconv_eval =
  ParseInt_def ParseUint_def parseIntCutoff_def isDigit_def digitVal_def maxUint64_def ParseBool_def

lemmas duration_eval =
  ParseDuration_def durationLoop.simps durationTerm_def unitMap_def unitChar_def

lemmas strings_eval =
  Ext_def ToLower_def lowerChar_def ToUpper_def upperChar_def isASCII_def char_of_eq_iff

lemmas stage_eval =
  loadDefaults_def loadFromFile_def loadEnvironment_def loadFlags_def decoded_def
  getEnvName_def getFlagName_def NewLoader_def DefaultConfig_def

lemma ParseInt_in_range:
  assumes "ParseInt s = (v, None)"
  shows "- (2 ^ 63) \<le> v \<and> v < 2 ^ 63"
proof -
  from assms obtain neg un where "parseIntCutoff s neg un = (v, None)"
    by (auto simp: ParseInt_def Let_def split: if_splits prod.splits option.splits numError.splits)
  then show ?thesis
    by (auto simp: parseIntCutoff_def split: if_splits)
qed

lemma sint_int64:
  "- (2 ^ 63) \<le> v \<Longrightarrow> v < 2 ^ 63 \<Longrightarrow> sint (word_of_int v :: 64 word) = v"
  by (simp add: signed_of_int signed_take_bit_int_eq_self)

lemma ParseDuration_5s: "ParseDuration frac ''5s'' = (5000000000, None)"
  by (simp add: duration_eval isDigit_def digitVal_def Let_def)

lemma ParseDuration_5: "ParseDuration frac ''5'' = (0, Some (MissingUnit ''5''))"
  by (simp add: duration_eval isDigit_def digitVal_def Let_def)

lemma ParseInt_5s: "ParseInt ''5s'' = (0, Some (NumError ''ParseInt'' ''5s'' ErrSyntax))"
  by (simp add: strconv_eval)

lemma ReplaceAll_dot:
  "ReplaceAll s ''.'' ''_'' = map (\<lambda>c. if c = CHR ''.'' then CHR ''_'' else c) s"
  by (induction s) auto

lemma fullNames_simps:
  "fullNames [] = []"
  "fullNames (fd # fds) = FullName (Some fd) # fullNames fds"
  "fullNames (xs @ ys) = fullNames xs @ fullNames ys"
  by (simp_all add: fullNames_def)

lemma FullName_Some:
  "FullName (Some (FieldData parent n f v d)) =
     (case parent of None \<Rightarrow> n | Some q \<Rightarrow> FullName (Some q) @ ''.'' @ n)"
  by (cases parent) simp_all

text \<open>
  The names of the descriptors built under a parent are the names built at the root, each
  prefixed with the parent's dotted name and a dot. The induction follows the recursion
  of the catalog builder; the parent is quantified, since the recursive call into a named
  group changes it.
\<close>

lemma names_under_parent:
  fixes q :: "fieldData option"
  shows "\<forall>p. fullNames (getFieldsHelper v t (Some p)) =
           map (\<lambda>n. FullName (Some p) @ ''.'' @ n) (fullNames (getFieldsHelper v t None))"
    and "\<forall>p. fullNames (getFieldsLoop v i fs (Some p)) =
           map (\<lambda>n. FullName (Some p) @ ''.'' @ n) (fullNames (getFieldsLoop v i fs None))"
proof (induct v t q and v i fs q rule: getFieldsHelper_getFieldsLoop.induct)
  case (1 v n k fs parent)
  then show ?case by simp
next
  case (2 v i parent)
  then show ?case by (simp add: fullNames_simps)
next
  case (3 v i field rest parent)
  show ?case
  proof (cases "CanSet field")
    case False
    with 3(1) show ?thesis by simp
  next
    case True
    note settable = this
    show ?thesis
    proof (cases "Kind (FieldType field) = Struct")
      case False
      with settable 3(2) show ?thesis
        by (simp add: Let_def FullName_Some fullNames_simps)
    next
      case True
      with settable 3(3) 3(4) show ?thesis
        by (simp add: Let_def FullName_Some fullNames_simps comp_def)
    qed
  qed
qed

text \<open>A setter that does not return \<^verbatim>\<open>nil\<close> has not written the record.\<close>

lemma setFieldData_failed:
  "fst (setFieldData w fd v st) \<noteq> Returned None \<Longrightarrow> snd (setFieldData w fd v st) = st"
  by (cases "ValueKind fd")
     (auto simp: setFieldData_def setBool_def setInt_def setInt64_def setUint_def setFloat_def
        setString_def thenReturnNil_def
        split: prod.splits option.splits sum.splits if_splits)

lemma loadDefaultsLoop_append:
  "loadDefaultsLoop w (xs @ ys) st =
     (let r = loadDefaultsLoop w xs st
      in if fst r \<noteq> Returned None then r else loadDefaultsLoop w ys (snd r))"
  by (induction xs arbitrary: st) (simp_all add: Let_def)

lemma loadEnvironmentLoop_append:
  "loadEnvironmentLoop w l (xs @ ys) st =
     (let r = loadEnvironmentLoop w l xs st
      in if fst r \<noteq> Returned None then r else loadEnvironmentLoop w l ys (snd r))"
  by (induction xs arbitrary: st) (simp_all add: Let_def split: option.splits)

text \<open>The loop of the environment stage reads the loader's configuration only.\<close>

lemma loadEnvironmentLoop_config:
  "config l = config l' \<Longrightarrow> loadEnvironmentLoop w l xs st = loadEnvironmentLoop w l' xs st"
  by (induction xs arbitrary: st) (simp_all add: getEnvName_def Let_def split: option.splits)

lemma loadFlagsLoop_append:
  "loadFlagsLoop w flags l (xs @ ys) st =
     (let r = loadFlagsLoop w flags l xs st
      in if fst r \<noteq> Returned None then r else loadFlagsLoop w flags l ys (snd r))"
  by (induction xs arbitrary: st) (simp_all add: Let_def split: option.splits)

text \<open>
  The slots of a catalog: every descriptor's path extends the path of the value the
  builder was called on, by an index not below the loop's, and no two descriptors share a
  path.
\<close>

lemma catalog_paths:
  "fd \<in> set (getFieldsHelper v t p) \<Longrightarrow> \<exists>j rest. Value fd = v @ j # rest"
  "fd \<in> set (getFieldsLoop v i fs p) \<Longrightarrow> \<exists>j rest. Value fd = v @ j # rest \<and> i \<le> j"
proof (induct v t p and v i fs p rule: getFieldsHelper_getFieldsLoop.induct)
  case (1 v n k fs parent)
  then show ?case by auto
next
  case (2 v i parent)
  then show ?case by simp
next
  case (3 v i field rest parent)
  show ?case
  proof (cases "CanSet field")
    case False
    with 3(1) 3(5) show ?thesis by (auto simp: Let_def intro: Suc_leD)
  next
    case True
    note settable = this
    show ?thesis
    proof (cases "Kind (FieldType field) = Struct")
      case False
      with settable 3(2) 3(5) show ?thesis
        by (auto simp: Let_def intro: Suc_leD)
    next
      case True
      with settable 3(3) 3(4) 3(5) show ?thesis
        by (fastforce simp: Let_def intro: Suc_leD)
    qed
  qed
qed

lemma catalog_paths_distinct:
  "distinct (map Value (getFieldsHelper v t p))"
  "distinct (map Value (getFieldsLoop v i fs p))"
proof (induct v t p and v i fs p rule: getFieldsHelper_getFieldsLoop.induct)
  case (1 v n k fs parent)
  then show ?case by simp
next
  case (2 v i parent)
  then show ?case by simp
next
  case (3 v i field rest parent)
  have later: "fd \<in> set (getFieldsLoop v (i + 1) rest parent) \<Longrightarrow>
                 \<exists>j r. Value fd = v @ j # r \<and> i < j" for fd
    using catalog_paths(2) [of fd v "i + 1" rest parent] by auto
  show ?case
  proof (cases "CanSet field")
    case False
    with 3(1) show ?thesis by simp
  next
    case True
    note settable = this
    show ?thesis
    proof (cases "Kind (FieldType field) = Struct")
      case False
      have "v @ [i] \<notin> Value ` set (getFieldsLoop v (i + 1) rest parent)"
        using later by fastforce
      with False settable 3(2) show ?thesis
        by (simp add: Let_def)
    next
      case True
      let ?par = "if Anonymous field
                  then Parent (FieldData parent (FieldName field) field (v @ [i])
                                 (TagGet (Tag field) defaultValueTag))
                  else Some (FieldData parent (FieldName field) field (v @ [i])
                                 (TagGet (Tag field) defaultValueTag))"
      have inner: "fd \<in> set (getFieldsHelper (v @ [i]) (FieldType field) ?par) \<Longrightarrow>
                     \<exists>r. Value fd = v @ i # r" for fd
        using catalog_paths(1) [of fd "v @ [i]" "FieldType field" ?par] by auto
      have "Value ` set (getFieldsHelper (v @ [i]) (FieldType field) ?par)
              \<inter> Value ` set (getFieldsLoop v (i + 1) rest parent) = {}"
        using inner later by fastforce
      with True settable 3(3) 3(4) show ?thesis
        by (simp add: Let_def)
    qed
  qed
qed

text \<open>
  A setter writes its own slot only, and what it returns and stores does not depend on
  the record it is applied to.
\<close>

lemma setFieldData_frame:
  "p \<noteq> Value fd \<Longrightarrow> snd (setFieldData w fd v st) p = st p"
  by (cases "ValueKind fd")
     (auto simp: setFieldData_def setBool_def setInt_def setInt64_def setUint_def setFloat_def
        setString_def thenReturnNil_def SetBool_def SetInt_def SetUint_def SetFloat_def
        SetString_def SetDuration_def
        split: prod.splits option.splits sum.splits if_splits)

lemma setFieldData_any_store:
  "fst (setFieldData w fd v st2) = fst (setFieldData w fd v st)"
  "fst (setFieldData w fd v st) = Returned None \<Longrightarrow>
     snd (setFieldData w fd v st2) (Value fd) = snd (setFieldData w fd v st) (Value fd)"
  by (cases "ValueKind fd";
      auto simp: setFieldData_def setBool_def setInt_def setInt64_def setUint_def setFloat_def
        setString_def thenReturnNil_def SetBool_def SetInt_def SetUint_def SetFloat_def
        SetString_def SetDuration_def
        split: prod.splits option.splits sum.splits if_splits)+

text \<open>
  When the loop of the defaults stage returns \<^verbatim>\<open>nil\<close> on descriptors with distinct
  slots, every setter accepted its default, every slot holds what its setter stores, and
  the other slots are as before.
\<close>

lemma loadDefaultsLoop_values:
  assumes "loadDefaultsLoop w fds st = (Returned None, st')" and "distinct (map Value fds)"
  shows "(\<forall>fd \<in> set fds. fst (setFieldData w fd (DefaultValue fd) st) = Returned None)
         \<and> (\<forall>fd \<in> set fds. st' (Value fd) = snd (setFieldData w fd (DefaultValue fd) st) (Value fd))
         \<and> (\<forall>p. p \<notin> Value ` set fds \<longrightarrow> st' p = st p)"
  using assms
proof (induction fds arbitrary: st)
  case Nil
  then show ?case by simp
next
  case (Cons fd fds)
  let ?r = "setFieldData w fd (DefaultValue fd) st"
  from Cons.prems(1) have ok: "fst ?r = Returned None"
    and rest: "loadDefaultsLoop w fds (snd ?r) = (Returned None, st')"
    by (auto simp: Let_def split: if_splits)
  from Cons.prems(2) have d: "distinct (map Value fds)" and nin: "Value fd \<notin> Value ` set fds"
    by auto
  note ih = Cons.IH [OF rest d]
  have head: "st' (Value fd) = snd ?r (Value fd)"
    using ih nin by blast
  have accepted: "fst (setFieldData w g (DefaultValue g) st) = Returned None"
    if "g \<in> set fds" for g
    using ih that setFieldData_any_store(1) [of w g "DefaultValue g" st "snd ?r"] by simp
  have tail: "st' (Value g) = snd (setFieldData w g (DefaultValue g) st) (Value g)"
    if "g \<in> set fds" for g
    using ih that accepted [OF that]
      setFieldData_any_store(2) [of w g "DefaultValue g" st "snd ?r"]
    by simp
  have other: "st' p = st p" if "p \<notin> Value ` set (fd # fds)" for p
  proof -
    from that have "p \<noteq> Value fd" "p \<notin> Value ` set fds" by auto
    then show ?thesis using ih setFieldData_frame [of p fd w "DefaultValue fd" st] by simp
  qed
  from ok head accepted tail other show ?case by auto
qed

lemma MyConfig_fields: "getFields (PointerTo MyConfig) = Inr (getFieldsHelper [] MyConfig None)"
  by (simp add: getFields_def MyConfig_def)

lemma LimitsConfig_fields: "getFields (PointerTo LimitsConfig) = Inr [fdLow, fdHigh, fdStep]"
  by (simp add: LimitsConfig_def fdLow_def fdHigh_def fdStep_def catalog_eval)

section \<open>Properties of the loader\<close>

text \<open>
  C1. Stated: with only the defaults stage enabled, \<^verbatim>\<open>Load\<close> succeeds, and a leaf whose
  default annotation is empty or absent keeps its zero value, the stage never coercing an
  empty default. The code: \<^verbatim>\<open>loadDefaults\<close> passes the default of every field to
  \<^verbatim>\<open>setFieldData\<close>, the empty one included. On the record \<open>PortConfig\<close>, whose
  \<^verbatim>\<open>int\<close> field has no \<^verbatim>\<open>default\<close> tag, \<^verbatim>\<open>strconv.ParseInt("")\<close> fails and
  \<^verbatim>\<open>Load\<close> returns its syntax error.
\<close>

theorem loadDefaults_coerces_empty_default:
  "Load w (NewLoader onlyDefaults) (PointerTo PortConfig) st =
     (Returned (Some (Strconv (NumError ''ParseInt'' [] ErrSyntax))),
      Loader onlyDefaults [fdPort], st)"
  by (simp add: Load_def onlyDefaults_def PortConfig_def fdPort_def
        stage_eval catalog_eval setter_eval strconv_eval)

text \<open>
  C2. Stated: the file stage tries the files in order and loads from the first that
  exists, so that a missing first file is passed over for a later one. The code: an error
  of \<^verbatim>\<open>os.Open\<close> on the first file is returned at once. In \<open>tomlWorld\<close>, where
  \<^verbatim>\<open>missing.toml\<close> does not exist and \<^verbatim>\<open>ok.toml\<close> does, the stage over
  \<^verbatim>\<open>["missing.toml", "ok.toml"]\<close> returns the open error and leaves the record as it
  was, although \<^verbatim>\<open>ok.toml\<close> alone loads.
\<close>

theorem loadFromFile_stops_at_missing_first_file:
  "loadFromFile tomlWorld
       (NewLoader (DefaultConfig\<lparr>Files := [''missing.toml'', ''ok.toml'']\<rparr>)) st =
     (Returned (Some (PathError ''missing.toml'' ''no such file or directory'')), st)
   \<and> loadFromFile tomlWorld (NewLoader (DefaultConfig\<lparr>Files := [''ok.toml'']\<rparr>)) st =
     (Returned None, st([0] := IntV 2222))"
  by (simp add: tomlWorld_def stage_eval strings_eval Let_def)

text \<open>
  C3. Stated: a decimal string beyond the range of an integer field's declared width is
  refused with an error, never truncated or wrapped. The code: \<^verbatim>\<open>setInt\<close> and
  \<^verbatim>\<open>setUint\<close> parse with a bit size of 64 whatever the field's width, and
  \<^verbatim>\<open>SetInt\<close> and \<^verbatim>\<open>SetUint\<close> keep the low bits. The string \<^verbatim>\<open>99999999999\<close> sets
  an \<^verbatim>\<open>int8\<close> field to \<open>-1\<close> and a \<^verbatim>\<open>uint8\<close> field to \<open>255\<close>, with no error.
\<close>

theorem setInt_wraps_to_field_width:
  "setFieldData w fdLevel ''99999999999'' st = (Returned None, st([0] := IntV (- 1)))
   \<and> setFieldData w fdCount ''99999999999'' st = (Returned None, st([1] := UintV 255))"
  by (simp add: fdLevel_def fdCount_def setter_eval strconv_eval)

text \<open>
  C4. A field whose declared type is \<^verbatim>\<open>time.Duration\<close> is set by parsing the string
  as a duration literal: the outcome and the stored value are those of
  \<^verbatim>\<open>time.ParseDuration\<close>. The string \<^verbatim>\<open>5s\<close> stores five seconds (in nanoseconds),
  not the integer 5; and the test for the duration type comes before the generic integer
  parsing, so that \<^verbatim>\<open>5\<close>, a valid integer, is refused for want of a unit.
\<close>

theorem duration_field_parsed_as_duration:
  fixes w :: "'f world"
  assumes "FieldType (Field fd) = Duration"
  shows "setFieldData w fd value st =
           (case ParseDuration (FracNanos w) value of
              (d, Some err) \<Rightarrow> (Returned (Some err), st)
            | (d, None) \<Rightarrow> (Returned None, st(Value fd := IntV d)))
         \<and> setFieldData w fd ''5s'' st = (Returned None, st(Value fd := IntV 5000000000))
         \<and> setFieldData w fd ''5'' st = (Returned (Some (MissingUnit ''5'')), st)"
proof -
  have k: "ValueKind fd = Int64"
    using assms by (simp add: ValueKind_def Duration_def)
  have gen: "setFieldData w fd s st =
           (case ParseDuration (FracNanos w) s of
              (d, Some err) \<Rightarrow> (Returned (Some err), st)
            | (d, None) \<Rightarrow> (Returned None, st(Value fd := IntV d)))" for s
    using assms k
    by (simp add: setFieldData_def setInt64_def SetDuration_def thenReturnNil_def
          split: prod.splits option.splits)
  show ?thesis
    using gen [of "value"] gen [of "''5s''"] gen [of "''5''"]
    by (simp add: ParseDuration_5s ParseDuration_5)
qed

theorem duration_field_parsed_as_duration_witness:
  "FieldType (Field fdTimeout) = Duration
   \<and> setFieldData tomlWorld fdTimeout ''5s'' zeroMyConfig =
       (Returned None, zeroMyConfig([2] := IntV 5000000000))
   \<and> setFieldData tomlWorld fdTimeout ''5'' zeroMyConfig =
       (Returned (Some (MissingUnit ''5'')), zeroMyConfig)"
proof -
  have h: "FieldType (Field fdTimeout) = Duration" by (simp add: fdTimeout_def)
  have v: "Value fdTimeout = [2]" by (simp add: fdTimeout_def)
  show ?thesis
    using h duration_field_parsed_as_duration [OF h, THEN conjunct2, of tomlWorld zeroMyConfig]
    by (simp add: v)
qed

text \<open>
  C5. An embedded (anonymous) group adds no segment to the dotted names of its leaves:
  they are named as the group's own fields are under the enclosing parent. The leaves of
  a named group carry the group's dotted name and a dot before their own; a leaf of the
  enclosing record carries its plain name (under the root) or its parent's dotted name and
  a dot. Fields that cannot be set are not in the catalog.
\<close>

theorem embedded_group_adds_no_name_segment:
  "fullNames (getFieldsLoop v i (f # rest) parent) =
     (if \<not> CanSet f then []
      else if Kind (FieldType f) \<noteq> Struct
        then [case parent of None \<Rightarrow> FieldName f
                           | Some q \<Rightarrow> FullName (Some q) @ ''.'' @ FieldName f]
      else if Anonymous f
        then fullNames (getFieldsHelper (v @ [i]) (FieldType f) parent)
      else map (\<lambda>n. (case parent of None \<Rightarrow> FieldName f
                                    | Some q \<Rightarrow> FullName (Some q) @ ''.'' @ FieldName f)
                     @ ''.'' @ n)
             (fullNames (getFieldsHelper (v @ [i]) (FieldType f) None)))
     @ fullNames (getFieldsLoop v (i + 1) rest parent)"
  using names_under_parent(1) [of "v @ [i]" "FieldType f"]
  by (simp add: Let_def FullName_Some fullNames_simps)

theorem embedded_group_adds_no_name_segment_witness:
  "fullNames (getFieldsLoop [] 0 (Fields ServerConfig) None) = [''Name'', ''Auth.User'']"
  using embedded_group_adds_no_name_segment
          [of "[]" 0 "hd (Fields ServerConfig)" "tl (Fields ServerConfig)" None]
        embedded_group_adds_no_name_segment
          [of "[]" 1 "hd (tl (Fields ServerConfig))" "[]" None]
  by (simp add: ServerConfig_def CanSet_def defaultValueTag_def fullNames_simps Let_def)

text \<open>
  C6. For every leaf field, the key the environment stage looks up is the upper case of
  the normalised prefix followed by the field's dotted name with every dot replaced by an
  underscore, where the normalised prefix is the configured one with one underscore
  appended by \<^verbatim>\<open>NewLoader\<close> when it is not empty. The stage \<^verbatim>\<open>loadEnvironment\<close>,
  on the loader \<^verbatim>\<open>Load\<close> works with (the configuration of \<^verbatim>\<open>NewLoader\<close> and the
  catalog), does nothing on an empty catalog; on a catalog with a first field it looks
  that key up for the field: absent, the field is left and the stage goes on with the
  rest of the catalog; present, its value is applied, and the stage ends if it is refused
  and goes on with the rest otherwise. So the stage looks up these keys, in catalog order,
  and no other.
\<close>

theorem environment_key_of_field:
  fixes w :: "'f world"
  shows "getEnvName w (Loader (config (NewLoader cfg)) fs) (FullName (Some fd)) =
           ToUpper (UnicodeUpper w)
             ((if EnvPrefix cfg = [] then [] else EnvPrefix cfg @ ''_'')
              @ map (\<lambda>c. if c = CHR ''.'' then CHR ''_'' else c) (FullName (Some fd)))
   \<and> loadEnvironment w (Loader (config (NewLoader cfg)) []) st = (Returned None, st)
   \<and> loadEnvironment w (Loader (config (NewLoader cfg)) (fd # rest)) st =
       (case LookupEnv w
               (ToUpper (UnicodeUpper w)
                  ((if EnvPrefix cfg = [] then [] else EnvPrefix cfg @ ''_'')
                   @ map (\<lambda>c. if c = CHR ''.'' then CHR ''_'' else c) (FullName (Some fd)))) of
          None \<Rightarrow> loadEnvironment w (Loader (config (NewLoader cfg)) rest) st
        | Some v \<Rightarrow>
            let r = setFieldData w fd v st
            in if fst r \<noteq> Returned None then r
               else loadEnvironment w (Loader (config (NewLoader cfg)) rest) (snd r))"
proof -
  let ?c = "config (NewLoader cfg)"
  have key: "getEnvName w (Loader ?c xs) n =
           ToUpper (UnicodeUpper w)
             ((if EnvPrefix cfg = [] then [] else EnvPrefix cfg @ ''_'')
              @ map (\<lambda>c. if c = CHR ''.'' then CHR ''_'' else c) n)" for n xs
    by (simp add: getEnvName_def NewLoader_def Let_def ReplaceAll_dot)
  have tail: "loadEnvironmentLoop w (Loader ?c (fd # rest)) rest s =
              loadEnvironment w (Loader ?c rest) s" for s
    using loadEnvironmentLoop_config [of "Loader ?c (fd # rest)" "Loader ?c rest" w rest s]
    by (simp add: loadEnvironment_def)
  have step: "loadEnvironment w (Loader ?c (fd # rest)) st =
       (case LookupEnv w (getEnvName w (Loader ?c (fd # rest)) (FullName (Some fd))) of
          None \<Rightarrow> loadEnvironment w (Loader ?c rest) st
        | Some v \<Rightarrow>
            let r = setFieldData w fd v st
            in if fst r \<noteq> Returned None then r
               else loadEnvironment w (Loader ?c rest) (snd r))"
    by (simp add: loadEnvironment_def [of w "Loader ?c (fd # rest)"] tail Let_def
          split: option.splits)
  have empty: "loadEnvironment w (Loader ?c []) st = (Returned None, st)"
    by (simp add: loadEnvironment_def)
  from key [of fs "FullName (Some fd)"] empty step [unfolded key] show ?thesis
    by simp
qed

text \<open>
  The witness: on the record of the README with the prefix \<^verbatim>\<open>APP\<close> the keys are
  \<^verbatim>\<open>APP_PORT\<close>, \<^verbatim>\<open>APP_AUTH_USER\<close> and \<^verbatim>\<open>APP_AUTH_PASS\<close>, and the stage, in the
  process that holds \<^verbatim>\<open>APP_PORT=3333\<close>, sets the port and nothing else. With a prefix
  that is not ASCII the key is the one the Unicode mapping gives, and the stage reads the
  variable of that name.
\<close>

theorem environment_key_of_field_witness:
  "map (\<lambda>fd. getEnvName tomlWorld (Loader (config (NewLoader appConfig)) []) (FullName (Some fd)))
       (getFieldsHelper [] MyConfig None) =
     [''APP_PORT'', ''APP_AUTH_USER'', ''APP_AUTH_PASS'']
   \<and> loadEnvironment tomlWorld
         (Loader (config (NewLoader appConfig)) (getFieldsHelper [] MyConfig None)) zeroMyConfig =
       (Returned None, zeroMyConfig([0] := IntV 3333))
   \<and> getEnvName accentWorld (Loader (config (NewLoader accentConfig)) []) (FullName (Some fdPort)) =
       [CHR 0xC3, CHR 0x89] @ ''_PORT''
   \<and> loadEnvironment accentWorld (Loader (config (NewLoader accentConfig)) [fdPort]) zeroMyConfig =
       (Returned None, zeroMyConfig([0] := IntV 7))"
proof -
  note stage_eq = environment_key_of_field [where 'f = unit]
  have keys: "getEnvName tomlWorld (Loader (config (NewLoader appConfig)) []) (FullName (Some fd)) =
          ToUpper (UnicodeUpper tomlWorld)
            (''APP_'' @ map (\<lambda>c. if c = CHR ''.'' then CHR ''_'' else c) (FullName (Some fd)))"
    for fd
    using stage_eq [THEN conjunct1, of tomlWorld appConfig "[]" fd]
    by (simp add: appConfig_def DefaultConfig_def)
  have names: "map (\<lambda>fd. getEnvName tomlWorld (Loader (config (NewLoader appConfig)) [])
                           (FullName (Some fd)))
                 (getFieldsHelper [] MyConfig None) =
               [''APP_PORT'', ''APP_AUTH_USER'', ''APP_AUTH_PASS'']"
    by (simp add: keys MyConfig_def catalog_eval strings_eval)
  have stage: "loadEnvironment tomlWorld
         (Loader (config (NewLoader appConfig)) (getFieldsHelper [] MyConfig None)) zeroMyConfig =
       (Returned None, zeroMyConfig([0] := IntV 3333))"
    by (simp add: MyConfig_def catalog_eval stage_eq [THEN conjunct2] appConfig_def DefaultConfig_def
          tomlWorld_def strings_eval setter_eval strconv_eval)
  have accent_key: "getEnvName accentWorld (Loader (config (NewLoader accentConfig)) [])
                      (FullName (Some fdPort)) = [CHR 0xC3, CHR 0x89] @ ''_PORT''"
    using stage_eq [THEN conjunct1, of accentWorld accentConfig "[]" fdPort]
    by (simp add: accentConfig_def DefaultConfig_def accentWorld_def tomlWorld_def fdPort_def
          strings_eval)
  have accent_stage: "loadEnvironment accentWorld
         (Loader (config (NewLoader accentConfig)) [fdPort]) zeroMyConfig =
       (Returned None, zeroMyConfig([0] := IntV 7))"
    by (simp add: stage_eq [THEN conjunct2] accentConfig_def DefaultConfig_def accentWorld_def
          tomlWorld_def fdPort_def strings_eval setter_eval strconv_eval)
  from names stage accent_key accent_stage show ?thesis by simp
qed

text \<open>
  C7. When the argument is a pointer to a struct, \<^verbatim>\<open>Load\<close> is the run of the four
  stages in the order defaults, file, environment, flags: a stage whose switch is off is
  skipped, and the first stage that does not return \<^verbatim>\<open>nil\<close> ends the call with its
  outcome and with the record as that stage left it, the later stages not being run. Within
  a stage that walks the catalog, when the fields before a field were applied and that
  field's value is refused, the stage ends with that outcome and with the record holding
  what the earlier fields stored: nothing is rolled back. (The flags stage is taken both
  with the command line already parsed and with \<^verbatim>\<open>flag.Parse()\<close> run by the stage.)
\<close>

theorem Load_runs_enabled_stages_in_order:
  fixes w :: "'f world"
  assumes "getFields into = Inr fs"
  shows "Load w l0 into st =
           (let l = Loader (config l0) fs; r = specRun (specStages w l) st
            in (fst r, l, snd r))
   \<and> (\<forall>l xs fd ys st1.
         fields l = xs @ fd # ys \<longrightarrow>
         loadDefaultsLoop w xs st = (Returned None, st1) \<longrightarrow>
         fst (setFieldData w fd (DefaultValue fd) st1) \<noteq> Returned None \<longrightarrow>
         loadDefaults w l st = (fst (setFieldData w fd (DefaultValue fd) st1), st1))
   \<and> (\<forall>l xs fd ys st1 v.
         fields l = xs @ fd # ys \<longrightarrow>
         loadEnvironmentLoop w l xs st = (Returned None, st1) \<longrightarrow>
         LookupEnv w (getEnvName w l (FullName (Some fd))) = Some v \<longrightarrow>
         fst (setFieldData w fd v st1) \<noteq> Returned None \<longrightarrow>
         loadEnvironment w l st = (fst (setFieldData w fd v st1), st1))
   \<and> (\<forall>l xs fd ys st1 v.
         fields l = xs @ fd # ys \<longrightarrow>
         FlagParsed w \<longrightarrow>
         loadFlagsLoop w (FlagLookup w) l xs st = (Returned None, st1) \<longrightarrow>
         FlagLookup w (getFlagName w l (FullName (Some fd))) = Some v \<longrightarrow>
         fst (setFieldData w fd v st1) \<noteq> Returned None \<longrightarrow>
         loadFlags w l st = (fst (setFieldData w fd v st1), st1))
   \<and> (\<forall>l xs fd ys st1 v flags.
         fields l = xs @ fd # ys \<longrightarrow>
         \<not> FlagParsed w \<longrightarrow>
         FlagParse w = Inr flags \<longrightarrow>
         loadFlagsLoop w flags l xs st = (Returned None, st1) \<longrightarrow>
         flags (getFlagName w l (FullName (Some fd))) = Some v \<longrightarrow>
         fst (setFieldData w fd v st1) \<noteq> Returned None \<longrightarrow>
         loadFlags w l st = (fst (setFieldData w fd v st1), st1))"
proof (intro conjI allI impI)
  show "Load w l0 into st =
           (let l = Loader (config l0) fs; r = specRun (specStages w l) st
            in (fst r, l, snd r))"
    using assms by (simp add: Load_def specStages_def Let_def)
next
  fix l xs fd ys st1
  assume "fields l = xs @ fd # ys" "loadDefaultsLoop w xs st = (Returned None, st1)"
    "fst (setFieldData w fd (DefaultValue fd) st1) \<noteq> Returned None"
  then show "loadDefaults w l st = (fst (setFieldData w fd (DefaultValue fd) st1), st1)"
    using setFieldData_failed [of w fd "DefaultValue fd" st1]
    by (simp add: loadDefaults_def loadDefaultsLoop_append Let_def prod_eq_iff)
next
  fix l xs fd ys st1 v
  assume "fields l = xs @ fd # ys" "loadEnvironmentLoop w l xs st = (Returned None, st1)"
    "LookupEnv w (getEnvName w l (FullName (Some fd))) = Some v"
    "fst (setFieldData w fd v st1) \<noteq> Returned None"
  then show "loadEnvironment w l st = (fst (setFieldData w fd v st1), st1)"
    using setFieldData_failed [of w fd v st1]
    by (simp add: loadEnvironment_def loadEnvironmentLoop_append Let_def prod_eq_iff)
next
  fix l xs fd ys st1 v
  assume "fields l = xs @ fd # ys" "FlagParsed w"
    "loadFlagsLoop w (FlagLookup w) l xs st = (Returned None, st1)"
    "FlagLookup w (getFlagName w l (FullName (Some fd))) = Some v"
    "fst (setFieldData w fd v st1) \<noteq> Returned None"
  then show "loadFlags w l st = (fst (setFieldData w fd v st1), st1)"
    using setFieldData_failed [of w fd v st1]
    by (simp add: loadFlags_def loadFlagsLoop_append Let_def prod_eq_iff)
next
  fix l xs fd ys st1 v flags
  assume "fields l = xs @ fd # ys" "\<not> FlagParsed w" "FlagParse w = Inr flags"
    "loadFlagsLoop w flags l xs st = (Returned None, st1)"
    "flags (getFlagName w l (FullName (Some fd))) = Some v"
    "fst (setFieldData w fd v st1) \<noteq> Returned None"
  then show "loadFlags w l st = (fst (setFieldData w fd v st1), st1)"
    using setFieldData_failed [of w fd v st1]
    by (simp add: loadFlags_def loadFlagsLoop_append Let_def prod_eq_iff)
qed

text \<open>
  The witness: the record of the README with its defaults, the file \<^verbatim>\<open>ok.toml\<close> that
  sets the port to 2222 and \<^verbatim>\<open>APP_PORT=3333\<close> in the environment. With every stage on
  the port ends as 3333; with the environment stage off, as 2222. And on the record whose
  second default is malformed, the defaults stage ends with the error of the second field,
  the first field keeping the default it was given and the third never reached.
\<close>

theorem Load_runs_enabled_stages_in_order_witness:
  "getFields (PointerTo MyConfig) = Inr (getFieldsHelper [] MyConfig None)
   \<and> Load tomlWorld (NewLoader appConfig) (PointerTo MyConfig) zeroMyConfig =
       (Returned None,
        Loader (config (NewLoader appConfig)) (getFieldsHelper [] MyConfig None),
        zeroMyConfig([0] := IntV 3333, [1, 0] := StringV ''def-user'',
                     [1, 1] := StringV ''def-pass''))
   \<and> Load tomlWorld (NewLoader (appConfig\<lparr>UseEnv := False\<rparr>)) (PointerTo MyConfig) zeroMyConfig =
       (Returned None,
        Loader (config (NewLoader (appConfig\<lparr>UseEnv := False\<rparr>))) (getFieldsHelper [] MyConfig None),
        zeroMyConfig([0] := IntV 2222, [1, 0] := StringV ''def-user'',
                     [1, 1] := StringV ''def-pass''))
   \<and> loadDefaults tomlWorld (Loader onlyDefaults [fdLow, fdHigh, fdStep]) zeroMyConfig =
       (Returned (Some (Strconv (NumError ''ParseInt'' ''x'' ErrSyntax))),
        zeroMyConfig([0] := IntV 7))"
proof -
  note stages = Load_runs_enabled_stages_in_order [OF MyConfig_fields, where 'f = unit]
  have all_on: "Load tomlWorld (NewLoader appConfig) (PointerTo MyConfig) zeroMyConfig =
       (Returned None,
        Loader (config (NewLoader appConfig)) (getFieldsHelper [] MyConfig None),
        zeroMyConfig([0] := IntV 3333, [1, 0] := StringV ''def-user'',
                     [1, 1] := StringV ''def-pass''))"
    using stages [THEN conjunct1, of tomlWorld "NewLoader appConfig" zeroMyConfig]
    by (simp add: specStages_def MyConfig_def appConfig_def tomlWorld_def zeroMyConfig_def
          stage_eval strings_eval catalog_eval setter_eval strconv_eval fun_upd_twist)
  have env_off: "Load tomlWorld (NewLoader (appConfig\<lparr>UseEnv := False\<rparr>)) (PointerTo MyConfig)
        zeroMyConfig =
       (Returned None,
        Loader (config (NewLoader (appConfig\<lparr>UseEnv := False\<rparr>))) (getFieldsHelper [] MyConfig None),
        zeroMyConfig([0] := IntV 2222, [1, 0] := StringV ''def-user'',
                     [1, 1] := StringV ''def-pass''))"
    using stages [THEN conjunct1, of tomlWorld "NewLoader (appConfig\<lparr>UseEnv := False\<rparr>)"
            zeroMyConfig]
    by (simp add: specStages_def MyConfig_def appConfig_def tomlWorld_def zeroMyConfig_def
          stage_eval strings_eval catalog_eval setter_eval strconv_eval fun_upd_twist)
  have split: "fields (Loader onlyDefaults [fdLow, fdHigh, fdStep]) = [fdLow] @ fdHigh # [fdStep]"
    by simp
  have first: "loadDefaultsLoop tomlWorld [fdLow] zeroMyConfig =
                 (Returned None, zeroMyConfig([0] := IntV 7))"
    by (simp add: fdLow_def setter_eval strconv_eval)
  have second: "fst (setFieldData tomlWorld fdHigh (DefaultValue fdHigh)
                      (zeroMyConfig([0] := IntV 7))) =
                  Returned (Some (Strconv (NumError ''ParseInt'' ''x'' ErrSyntax)))"
    by (simp add: fdHigh_def setter_eval strconv_eval)
  have refused: "fst (setFieldData tomlWorld fdHigh (DefaultValue fdHigh)
                       (zeroMyConfig([0] := IntV 7))) \<noteq> Returned None"
    by (simp add: second)
  have kept: "loadDefaults tomlWorld (Loader onlyDefaults [fdLow, fdHigh, fdStep]) zeroMyConfig =
       (Returned (Some (Strconv (NumError ''ParseInt'' ''x'' ErrSyntax))),
        zeroMyConfig([0] := IntV 7))"
    using stages [THEN conjunct2, THEN conjunct1, rule_format, OF split first refused]
    by (simp add: second)
  from MyConfig_fields all_on env_off kept show ?thesis by simp
qed

text \<open>
  C8. Stated: an argument that is not a pointer to a struct makes catalog building fail
  with an error returned to the caller. The code: \<^verbatim>\<open>getFields\<close> has no such check (a
  comment notes it as to do), and \<^verbatim>\<open>Load\<close> returns no error: it panics inside
  \<^verbatim>\<open>reflect\<close>, on a nil interface, on a value that is not a pointer, on a nil pointer
  and on a pointer to a value that is not a struct, leaving the loader and the record as
  they were.
\<close>

theorem Load_panics_on_invalid_target:
  "Load w l NilInterface st = (Panicked (ValueError ''reflect.Value.Elem'' Invalid), l, st)
   \<and> Load w l (NonPointer MyConfig) st = (Panicked (ValueError ''reflect.Value.Elem'' Struct), l, st)
   \<and> Load w l (NilPointer MyConfig) st = (Panicked (ValueError ''reflect.Value.Type'' Invalid), l, st)
   \<and> Load w l (PointerTo (Type ''int'' IntK [])) st =
       (Panicked (ValueError ''reflect.Value.NumField'' IntK), l, st)"
  by (simp add: Load_def getFields_def MyConfig_def)

text \<open>
  C9. With an empty list of files the file stage returns \<^verbatim>\<open>nil\<close> and leaves the
  record as it was.
\<close>

theorem loadFromFile_without_files:
  fixes w :: "'f world"
  assumes "Files (config l) = []"
  shows "loadFromFile w l st = (Returned None, st)"
  using assms by (simp add: loadFromFile_def)

text \<open>
  The witness: the loader of \<^verbatim>\<open>DefaultConfig\<close>, which enables the file stage and
  names no file.
\<close>

theorem loadFromFile_without_files_witness:
  "UseFile (config (NewLoader DefaultConfig)) \<and> Files (config (NewLoader DefaultConfig)) = []
   \<and> loadFromFile tomlWorld (NewLoader DefaultConfig) zeroMyConfig = (Returned None, zeroMyConfig)"
proof -
  have h: "Files (config (NewLoader DefaultConfig)) = []"
    by (simp add: NewLoader_def DefaultConfig_def)
  show ?thesis
    using h loadFromFile_without_files [OF h, of tomlWorld zeroMyConfig]
    by (simp add: NewLoader_def DefaultConfig_def)
qed

text \<open>
  C10. The duration case is taken only for the type \<^verbatim>\<open>time.Duration\<close> itself. A field
  of kind \<^verbatim>\<open>Int64\<close> of any other type, such as a defined type over \<^verbatim>\<open>int64\<close>, is set
  by \<^verbatim>\<open>strconv.ParseInt\<close>: its error is returned, or its value stored as it is. The
  duration literal \<^verbatim>\<open>5s\<close> is a syntax error for such a field.
\<close>

theorem named_int64_parsed_as_integer:
  fixes w :: "'f world"
  assumes "ValueKind fd = Int64" and "FieldType (Field fd) \<noteq> Duration"
  shows "setFieldData w fd value st =
           (case ParseInt value of
              (v, Some err) \<Rightarrow> (Returned (Some (Strconv err)), st)
            | (v, None) \<Rightarrow> (Returned None, st(Value fd := IntV v)))
         \<and> setFieldData w fd ''5s'' st =
             (Returned (Some (Strconv (NumError ''ParseInt'' ''5s'' ErrSyntax))), st)"
proof -
  have gen: "setFieldData w fd s st =
           (case ParseInt s of
              (v, Some err) \<Rightarrow> (Returned (Some (Strconv err)), st)
            | (v, None) \<Rightarrow> (Returned None, st(Value fd := IntV v)))" for s
  proof (cases "ParseInt s")
    case (Pair v e)
    show ?thesis
    proof (cases e)
      case None
      with Pair have "sint (word_of_int v :: 64 word) = v"
        using ParseInt_in_range [of s v] by (simp add: sint_int64)
      with Pair None assms show ?thesis
        by (simp add: setFieldData_def setInt64_def setInt_def SetInt_def thenReturnNil_def)
    next
      case (Some err)
      with Pair assms show ?thesis
        by (simp add: setFieldData_def setInt64_def setInt_def)
    qed
  qed
  show ?thesis
    using gen [of "value"] gen [of "''5s''"] by (simp add: ParseInt_5s)
qed

theorem named_int64_parsed_as_integer_witness:
  "ValueKind fdDelay = Int64 \<and> FieldType (Field fdDelay) \<noteq> Duration
   \<and> setFieldData tomlWorld fdDelay ''5s'' zeroMyConfig =
       (Returned (Some (Strconv (NumError ''ParseInt'' ''5s'' ErrSyntax))), zeroMyConfig)"
proof -
  have k: "ValueKind fdDelay = Int64" by (simp add: fdDelay_def ValueKind_def)
  have t: "FieldType (Field fdDelay) \<noteq> Duration" by (simp add: fdDelay_def Duration_def)
  show ?thesis
    using k t named_int64_parsed_as_integer [OF k t, THEN conjunct2, of tomlWorld zeroMyConfig]
    by simp
qed

section \<open>Further properties\<close>

text \<open>
  For every leaf field, the name the flag stage looks up is the lower case of the
  normalised flag prefix (the configured one with a dot appended when it is not empty)
  followed by the field's dotted name; the stage looks that name up for the field at the
  head of the catalog.
\<close>

theorem flag_name_of_field:
  fixes w :: "'f world"
  shows "getFlagName w (Loader (config (NewLoader cfg)) fs) (FullName (Some fd)) =
           ToLower (UnicodeLower w) ((if FlagPrefix cfg = [] then [] else FlagPrefix cfg @ ''.'')
                    @ FullName (Some fd))
   \<and> loadFlagsLoop w flags (Loader (config (NewLoader cfg)) fs) (fd # rest) st =
       (case flags (ToLower (UnicodeLower w) ((if FlagPrefix cfg = [] then [] else FlagPrefix cfg @ ''.'')
                             @ FullName (Some fd))) of
          None \<Rightarrow> loadFlagsLoop w flags (Loader (config (NewLoader cfg)) fs) rest st
        | Some v \<Rightarrow>
            let r = setFieldData w fd v st
            in if fst r \<noteq> Returned None then r
               else loadFlagsLoop w flags (Loader (config (NewLoader cfg)) fs) rest (snd r))"
proof -
  have name: "getFlagName w (Loader (config (NewLoader cfg)) fs) n =
           ToLower (UnicodeLower w)
             ((if FlagPrefix cfg = [] then [] else FlagPrefix cfg @ ''.'') @ n)" for n
    by (simp add: getFlagName_def NewLoader_def Let_def)
  show ?thesis
    by (simp add: name)
qed

theorem flag_name_of_field_witness:
  "map (\<lambda>fd. getFlagName tomlWorld (Loader (config (NewLoader appConfig)) []) (FullName (Some fd)))
       (getFieldsHelper [] MyConfig None) =
     [''app.port'', ''app.auth.user'', ''app.auth.pass'']"
proof -
  have "getFlagName tomlWorld (Loader (config (NewLoader appConfig)) []) (FullName (Some fd)) =
          ToLower (UnicodeLower tomlWorld) (''app.'' @ FullName (Some fd))" for fd
    using flag_name_of_field [where 'f = unit, THEN conjunct1, of tomlWorld appConfig "[]" fd]
    by (simp add: appConfig_def DefaultConfig_def)
  then show ?thesis
    by (simp add: MyConfig_def catalog_eval strings_eval)
qed

text \<open>
  The file stage never goes past the first listed file: its outcome and the record it
  leaves are those of the stage run on the first file alone. When that file opens, has
  one of the known extensions and its decoder reports an error, the stage returns the
  file-parsing error built from the decoder's message, with the record as the decoder
  left it, whatever files follow.
\<close>

theorem loadFromFile_first_file_only:
  fixes w :: "'f world"
  shows "loadFromFile w (Loader (cfg\<lparr>Files := file # rest\<rparr>) fs) st =
           loadFromFile w (Loader (cfg\<lparr>Files := [file]\<rparr>) fs) st
   \<and> (Open w file = Inr bytes \<longrightarrow>
        (ToLower (UnicodeLower w) (Ext file) = ''.yaml'' \<or> ToLower (UnicodeLower w) (Ext file) = ''.yml'') \<longrightarrow>
        DecodeYAML w bytes st = (Some msg, st') \<longrightarrow>
        loadFromFile w (Loader (cfg\<lparr>Files := file # rest\<rparr>) fs) st =
          (Returned (Some (FileParsingError msg)), st'))
   \<and> (Open w file = Inr bytes \<longrightarrow> ToLower (UnicodeLower w) (Ext file) = ''.json'' \<longrightarrow>
        DecodeJSON w bytes st = (Some msg, st') \<longrightarrow>
        loadFromFile w (Loader (cfg\<lparr>Files := file # rest\<rparr>) fs) st =
          (Returned (Some (FileParsingError msg)), st'))
   \<and> (Open w file = Inr bytes \<longrightarrow> ToLower (UnicodeLower w) (Ext file) = ''.toml'' \<longrightarrow>
        DecodeTOML w bytes st = (Some msg, st') \<longrightarrow>
        loadFromFile w (Loader (cfg\<lparr>Files := file # rest\<rparr>) fs) st =
          (Returned (Some (FileParsingError msg)), st'))"
  by (auto simp: loadFromFile_def decoded_def Let_def)

theorem loadFromFile_first_file_only_witness:
  "Open tomlWorld ''bad.json'' = Inr ''{'' \<and> ToLower (UnicodeLower tomlWorld) (Ext ''bad.json'') = ''.json''
   \<and> DecodeJSON tomlWorld ''{'' zeroMyConfig = (Some ''unexpected EOF'', zeroMyConfig)
   \<and> loadFromFile tomlWorld (Loader (DefaultConfig\<lparr>Files := [''bad.json'', ''ok.toml'']\<rparr>) [])
        zeroMyConfig =
       (Returned (Some (FileParsingError ''unexpected EOF'')), zeroMyConfig)"
proof -
  have opened: "Open tomlWorld ''bad.json'' = Inr ''{''"
    by (simp add: tomlWorld_def)
  have ext: "ToLower (UnicodeLower tomlWorld) (Ext ''bad.json'') = ''.json''"
    by (simp add: strings_eval)
  have dec: "DecodeJSON tomlWorld ''{'' zeroMyConfig = (Some ''unexpected EOF'', zeroMyConfig)"
    by (simp add: tomlWorld_def)
  from opened ext dec
    loadFromFile_first_file_only
      [where cfg = DefaultConfig and rest = "[''ok.toml'']" and fs = "[]",
       THEN conjunct2, THEN conjunct2, THEN conjunct1, rule_format, OF opened ext dec]
  show ?thesis by simp
qed

text \<open>
  When the argument is a pointer to a struct and the defaults stage returns
  \<^verbatim>\<open>nil\<close>, the setter of every field of the catalog accepted the field's default
  annotation, every field's slot holds the value that setter stores for the annotation,
  and every other slot of the record is unchanged.
\<close>

theorem loadDefaults_applies_every_default:
  fixes w :: "'f world"
  assumes "getFields into = Inr fs"
    and "loadDefaults w (Loader cfg fs) st = (Returned None, st')"
  shows "(\<forall>fd \<in> set fs. fst (setFieldData w fd (DefaultValue fd) st) = Returned None)
         \<and> (\<forall>fd \<in> set fs.
               st' (Value fd) = snd (setFieldData w fd (DefaultValue fd) st) (Value fd))
         \<and> (\<forall>p. p \<notin> Value ` set fs \<longrightarrow> st' p = st p)"
proof -
  from assms(1) obtain t where "fs = getFieldsHelper [] t None"
    by (auto simp: getFields_def split: target.splits if_splits)
  then have "distinct (map Value fs)"
    by (simp add: catalog_paths_distinct)
  with assms(2) show ?thesis
    using loadDefaultsLoop_values [of w fs st st'] by (simp add: loadDefaults_def)
qed

theorem loadDefaults_applies_every_default_witness:
  "getFields (PointerTo MyConfig) = Inr (getFieldsHelper [] MyConfig None)
   \<and> loadDefaults tomlWorld (Loader onlyDefaults (getFieldsHelper [] MyConfig None)) zeroMyConfig =
       (Returned None,
        zeroMyConfig([0] := IntV 1111, [1, 0] := StringV ''def-user'',
                     [1, 1] := StringV ''def-pass''))
   \<and> list_all (\<lambda>fd. fst (setFieldData tomlWorld fd (DefaultValue fd) zeroMyConfig) = Returned None)
        (getFieldsHelper [] MyConfig None)"
proof -
  have run: "loadDefaults tomlWorld (Loader onlyDefaults (getFieldsHelper [] MyConfig None))
               zeroMyConfig =
       (Returned None,
        zeroMyConfig([0] := IntV 1111, [1, 0] := StringV ''def-user'',
                     [1, 1] := StringV ''def-pass''))"
    by (simp add: MyConfig_def zeroMyConfig_def loadDefaults_def catalog_eval setter_eval
          strconv_eval fun_upd_twist)
  from MyConfig_fields run
    loadDefaults_applies_every_default [OF MyConfig_fields run, THEN conjunct1]
  show ?thesis by (simp add: list_all_iff)
qed

text \<open>
  An \<^verbatim>\<open>int8\<close> field is set from the string's 64-bit value: an error of
  \<^verbatim>\<open>strconv.ParseInt\<close> with bit size 64 is returned, and a value it accepts is stored
  reduced to its low eight bits, which is the value itself exactly when it lies between
  -128 and 127.
\<close>

theorem setInt_on_int8_field:
  fixes w :: "'f world"
  assumes "ValueKind fd = Int8"
  shows "setFieldData w fd s st =
           (case ParseInt s of
              (v, Some err) \<Rightarrow> (Returned (Some (Strconv err)), st)
            | (v, None) \<Rightarrow> (Returned None, st(Value fd := IntV (sint (word_of_int v :: 8 word)))))
         \<and> (\<forall>v. - 128 \<le> v \<longrightarrow> v \<le> 127 \<longrightarrow> sint (word_of_int v :: 8 word) = v)"
proof -
  have "sint (word_of_int v :: 8 word) = v" if "- 128 \<le> v" "v \<le> 127" for v :: int
    using that by (simp add: signed_of_int signed_take_bit_int_eq_self)
  with assms show ?thesis
    by (simp add: setFieldData_def setInt_def SetInt_def thenReturnNil_def
          split: prod.splits option.splits)
qed

theorem setInt_on_int8_field_witness:
  "ValueKind fdLevel = Int8
   \<and> setFieldData tomlWorld fdLevel ''-128'' zeroMyConfig =
       (Returned None, zeroMyConfig([0] := IntV (- 128)))
   \<and> setFieldData tomlWorld fdLevel ''128'' zeroMyConfig =
       (Returned None, zeroMyConfig([0] := IntV (- 128)))
   \<and> setFieldData tomlWorld fdLevel ''9223372036854775808'' zeroMyConfig =
       (Returned (Some (Strconv (NumError ''ParseInt'' ''9223372036854775808'' ErrRange))),
        zeroMyConfig)"
proof -
  have k: "ValueKind fdLevel = Int8" by (simp add: fdLevel_def ValueKind_def)
  have v: "Value fdLevel = [0]" by (simp add: fdLevel_def)
  note set = setInt_on_int8_field [OF k, THEN conjunct1, of tomlWorld _ zeroMyConfig]
  from k set [of "''-128''"] set [of "''128''"] set [of "''9223372036854775808''"]
  show ?thesis by (simp add: v strconv_eval)
qed

end
